theory Spec2Isabelle
  imports Main "HOL-Library.AList" "HOL-Library.Monad_Syntax"
begin

section \<open>JSON documents and their text\<close>

text \<open>
  The stack in \<^verbatim>\<open>lib/todo-app-stack.ts\<close> wires five REST methods of an API gateway
  straight to a key-value table. Everything the stack itself decides is text: request
  templates that build the JSON payload of a store operation by interpolating request
  values, selection patterns over the store's status code, and response templates.
  Request bodies, payloads and store answers are JSON, so the development starts with
  JSON values and with the way a JSON reader turns payload text into a value.
\<close>

datatype json =
    JNull
  | JBool bool
  | JNum int
  | JStr string
  | JArr "json list"
  | JObj "(string \<times> json) list"

abbreviation dquote :: char where "dquote \<equiv> CHR 0x22"
abbreviation backslash :: char where "backslash \<equiv> CHR 0x5C"

definition is_ws :: "char \<Rightarrow> bool" where
  "is_ws c = (c = CHR '' '' \<or> c = CHR 0x0A \<or> c = CHR 0x0D \<or> c = CHR 0x09)"

fun skip_ws :: "string \<Rightarrow> string" where
  "skip_ws [] = []"
| "skip_ws (c # cs) = (if is_ws c then skip_ws cs else c # cs)"

definition is_digit :: "char \<Rightarrow> bool" where
  "is_digit c = (48 \<le> (of_char c :: nat) \<and> (of_char c :: nat) \<le> 57)"

definition digits_value :: "string \<Rightarrow> nat" where
  "digits_value ds = foldl (\<lambda>a c. 10 * a + (of_char c - 48)) 0 ds"

definition hex_digit :: "char \<Rightarrow> nat option" where
  "hex_digit c =
     (let n = (of_char c :: nat) in
      if 48 \<le> n \<and> n \<le> 57 then Some (n - 48)
      else if 65 \<le> n \<and> n \<le> 70 then Some (n - 55)
      else if 97 \<le> n \<and> n \<le> 102 then Some (n - 87)
      else None)"

fun hex4 :: "string \<Rightarrow> nat option" where
  "hex4 [a, b, c, d] =
     (case (hex_digit a, hex_digit b, hex_digit c, hex_digit d) of
        (Some w, Some x, Some y, Some z) \<Rightarrow> Some (((w * 16 + x) * 16 + y) * 16 + z)
      | _ \<Rightarrow> None)"
| "hex4 _ = None"

text \<open>The bytes (UTF-8) of a code point of the basic plane, as a \<^verbatim>\<open>\uXXXX\<close> escape
  names it. Surrogate pairs are not combined.\<close>

definition utf8 :: "nat \<Rightarrow> string" where
  "utf8 n =
     (if n < 128 then [char_of n]
      else if n < 2048 then [char_of (192 + n div 64), char_of (128 + n mod 64)]
      else [char_of (224 + n div 4096), char_of (128 + (n div 64) mod 64),
            char_of (128 + n mod 64)])"

definition unescape :: "char \<Rightarrow> char option" where
  "unescape e =
     (if e = dquote then Some dquote
      else if e = backslash then Some backslash
      else if e = CHR ''/'' then Some (CHR ''/'')
      else if e = CHR ''b'' then Some (CHR 0x08)
      else if e = CHR ''f'' then Some (CHR 0x0C)
      else if e = CHR ''n'' then Some (CHR 0x0A)
      else if e = CHR ''r'' then Some (CHR 0x0D)
      else if e = CHR ''t'' then Some (CHR 0x09)
      else None)"

text \<open>
  \<open>parse_str\<close> reads a JSON string literal from just after its opening quote: it
  returns the decoded characters and the text after the closing quote. A raw control
  character, a bad escape or a missing closing quote is an error.
\<close>

fun parse_str :: "string \<Rightarrow> (string \<times> string) option" where
  "parse_str [] = None"
| "parse_str (c # cs) =
     (if c = dquote then Some ([], cs)
      else if c = backslash then
        (case cs of
           [] \<Rightarrow> None
         | e # es \<Rightarrow>
             if e = CHR ''u'' then
               (case hex4 (take 4 es) of
                  None \<Rightarrow> None
                | Some n \<Rightarrow> map_option (\<lambda>(s, r). (utf8 n @ s, r)) (parse_str (drop 4 es)))
             else
               (case unescape e of
                  None \<Rightarrow> None
                | Some d \<Rightarrow> map_option (\<lambda>(s, r). (d # s, r)) (parse_str es)))
      else if (of_char c :: nat) < 32 then None
      else map_option (\<lambda>(s, r). (c # s, r)) (parse_str cs))"

text \<open>
  The reader of values. Its first argument bounds the number of nested calls; the
  length of the text is always enough, since every call is preceded by the consumption
  of a character. Numbers are integers (the only number of a payload is the scan limit).
\<close>

fun parse_value :: "nat \<Rightarrow> string \<Rightarrow> (json \<times> string) option"
  and parse_members :: "nat \<Rightarrow> string \<Rightarrow> ((string \<times> json) list \<times> string) option"
  and parse_elements :: "nat \<Rightarrow> string \<Rightarrow> (json list \<times> string) option" where
  "parse_value 0 s = None"
| "parse_value (Suc n) s =
     (case skip_ws s of
        [] \<Rightarrow> None
      | c # r \<Rightarrow>
          if c = CHR ''{'' then
            (case skip_ws r of
               [] \<Rightarrow> None
             | d # r' \<Rightarrow>
                 if d = CHR ''}'' then Some (JObj [], r')
                 else map_option (\<lambda>(ms, t). (JObj ms, t)) (parse_members n (d # r')))
          else if c = CHR ''['' then
            (case skip_ws r of
               [] \<Rightarrow> None
             | d # r' \<Rightarrow>
                 if d = CHR '']'' then Some (JArr [], r')
                 else map_option (\<lambda>(vs, t). (JArr vs, t)) (parse_elements n (d # r')))
          else if c = dquote then map_option (\<lambda>(x, t). (JStr x, t)) (parse_str r)
          else if c = CHR ''-'' \<and> takeWhile is_digit r \<noteq> [] then
            Some (JNum (- int (digits_value (takeWhile is_digit r))), dropWhile is_digit r)
          else if is_digit c then
            Some (JNum (int (digits_value (takeWhile is_digit (c # r)))), dropWhile is_digit r)
          else if take 4 (c # r) = ''true'' then Some (JBool True, drop 3 r)
          else if take 5 (c # r) = ''false'' then Some (JBool False, drop 4 r)
          else if take 4 (c # r) = ''null'' then Some (JNull, drop 3 r)
          else None)"
| "parse_members 0 s = None"
| "parse_members (Suc n) s =
     (case skip_ws s of
        [] \<Rightarrow> None
      | c # r \<Rightarrow>
          if c \<noteq> dquote then None
          else
            (case parse_str r of
               None \<Rightarrow> None
             | Some (k, r1) \<Rightarrow>
                 (case skip_ws r1 of
                    [] \<Rightarrow> None
                  | c1 # r2 \<Rightarrow>
                      if c1 \<noteq> CHR '':'' then None
                      else
                        (case parse_value n r2 of
                           None \<Rightarrow> None
                         | Some (v, r3) \<Rightarrow>
                             (case skip_ws r3 of
                                [] \<Rightarrow> None
                              | c3 # r4 \<Rightarrow>
                                  if c3 = CHR '','' then
                                    map_option (\<lambda>(ms, t). ((k, v) # ms, t)) (parse_members n r4)
                                  else if c3 = CHR ''}'' then Some ([(k, v)], r4)
                                  else None)))))"
| "parse_elements 0 s = None"
| "parse_elements (Suc n) s =
     (case parse_value n s of
        None \<Rightarrow> None
      | Some (v, r1) \<Rightarrow>
          (case skip_ws r1 of
             [] \<Rightarrow> None
           | c # r2 \<Rightarrow>
               if c = CHR '','' then map_option (\<lambda>(vs, t). (v # vs, t)) (parse_elements n r2)
               else if c = CHR '']'' then Some ([v], r2)
               else None))"

definition parse_json :: "string \<Rightarrow> json option" where
  "parse_json s =
     (case parse_value (length s) s of
        None \<Rightarrow> None
      | Some (v, r) \<Rightarrow> if skip_ws r = [] then Some v else None)"

text \<open>Member lookup in an object, and the string at a member.\<close>

fun member :: "json \<Rightarrow> string \<Rightarrow> json option" where
  "member (JObj ms) k = map_of ms k"
| "member _ k = None"

fun str_member :: "json \<Rightarrow> string \<Rightarrow> string option" where
  "str_member j k = (case member j k of Some (JStr s) \<Rightarrow> Some s | _ \<Rightarrow> None)"


section \<open>The request model and the request validator\<close>

text \<open>
  \<open>todoModel\<close> is the JSON schema of the source (lines 52-71): an object whose
  properties \<open>id\<close>, \<open>title\<close> and \<open>description\<close> are strings, all three
  required. The schema has no \<open>minLength\<close> and no \<open>additionalProperties\<close>.
  \<open>validates\<close> is the reading of such a schema by the gateway's request validator: the
  value has the schema's type, every required member is present, and every listed
  property that is present has its type.
\<close>

datatype JsonSchemaType = OBJECT | STRING

record schema =
  schema_type :: JsonSchemaType
  properties :: "(string \<times> JsonSchemaType) list"
  required :: "string list"

definition todoModel :: schema where
  "todoModel =
     \<lparr> schema_type = OBJECT,
       properties = [(''id'', STRING), (''title'', STRING), (''description'', STRING)],
       required = [''id'', ''title'', ''description''] \<rparr>"

fun has_type :: "JsonSchemaType \<Rightarrow> json \<Rightarrow> bool" where
  "has_type OBJECT (JObj ms) = True"
| "has_type STRING (JStr s) = True"
| "has_type ty j = False"

definition validates :: "schema \<Rightarrow> json \<Rightarrow> bool" where
  "validates sc j =
     (has_type (schema_type sc) j
      \<and> list_all (\<lambda>k. member j k \<noteq> None) (required sc)
      \<and> list_all (\<lambda>(k, ty). case member j k of None \<Rightarrow> True | Some v \<Rightarrow> has_type ty v)
            (properties sc))"

text \<open>
  A request carries the path parameter \<open>todoId\<close> (unused by the two methods of the
  collection resource) and its body, read as JSON with content type
  \<^verbatim>\<open>application/json\<close>; \<open>None\<close> is a body that is absent or is not JSON.
\<close>

record request =
  todoId :: string
  body :: "json option"

definition valid_body :: "schema \<Rightarrow> json option \<Rightarrow> bool" where
  "valid_body sc b = (case b of None \<Rightarrow> False | Some j \<Rightarrow> validates sc j)"

section \<open>The mapping templates\<close>

text \<open>
  \<open>input_path b k\<close> is what \<^verbatim>\<open>$input.path('$.k')\<close> prints into a template for a
  body \<open>b\<close>: the characters of a string member as they are, with no escaping, and
  nothing for a member that is absent. (Members of other types never reach a template
  that prints them: both methods that read the body validate it first.)
  \<open>input_params\<close> is \<^verbatim>\<open>$input.params('todoId')\<close>.
\<close>

definition input_path :: "request \<Rightarrow> string \<Rightarrow> string" where
  "input_path req k =
     (case body req of
        None \<Rightarrow> []
      | Some j \<Rightarrow> (case str_member j k of None \<Rightarrow> [] | Some s \<Rightarrow> s))"

definition input_params :: "request \<Rightarrow> string" where
  "input_params req = todoId req"

definition tableName :: string where
  "tableName = ''todos''"

definition getAllTodos_requestTemplate :: "request \<Rightarrow> string" where
  \<open>getAllTodos_requestTemplate req =
     ''{\<newline>'' @
     ''            "TableName": "'' @ tableName @ ''",\<newline>'' @
     ''            "Limit": 10\<newline>'' @
     ''          }''\<close>

definition createTodo_requestTemplate :: "request \<Rightarrow> string" where
  \<open>createTodo_requestTemplate req =
     ''{\<newline>'' @
     ''            "TableName": "'' @ tableName @ ''",\<newline>'' @
     ''            "Item": {\<newline>'' @
     ''              "id": {\<newline>'' @
     ''                "S": "'' @ input_path req ''id'' @ ''"\<newline>'' @
     ''              },\<newline>'' @
     ''              "title": {\<newline>'' @
     ''                "S": "'' @ input_path req ''title'' @ ''"\<newline>'' @
     ''              },\<newline>'' @
     ''              "description": {\<newline>'' @
     ''                "S": "'' @ input_path req ''description'' @ ''"\<newline>'' @
     ''              }\<newline>'' @
     ''            },\<newline>'' @
     ''            "ConditionExpression": "attribute_not_exists(id)"\<newline>'' @
     ''          }''\<close>

definition getSingleTodo_requestTemplate :: "request \<Rightarrow> string" where
  \<open>getSingleTodo_requestTemplate req =
     ''{\<newline>'' @
     ''            "TableName": "'' @ tableName @ ''",\<newline>'' @
     ''            "Key": {\<newline>'' @
     ''              "id": {\<newline>'' @
     ''                 "S": "'' @ input_params req @ ''"\<newline>'' @
     ''              }\<newline>'' @
     ''            }\<newline>'' @
     ''          }''\<close>

definition updateSingleTodo_requestTemplate :: "request \<Rightarrow> string" where
  \<open>updateSingleTodo_requestTemplate req =
     ''{\<newline>'' @
     ''            "TableName": "'' @ tableName @ ''",\<newline>'' @
     ''            "Item": {\<newline>'' @
     ''              "id": {\<newline>'' @
     ''                "S": "'' @ input_params req @ ''"\<newline>'' @
     ''              },\<newline>'' @
     ''              "title": {\<newline>'' @
     ''                "S": "'' @ input_path req ''title'' @ ''"\<newline>'' @
     ''              },\<newline>'' @
     ''              "description": {\<newline>'' @
     ''                "S": "'' @ input_path req ''description'' @ ''"\<newline>'' @
     ''              }\<newline>'' @
     ''            },\<newline>'' @
     ''            "ConditionExpression": "attribute_exists(id)"\<newline>'' @
     ''          }''\<close>

definition deleteSingleTodo_requestTemplate :: "request \<Rightarrow> string" where
  \<open>deleteSingleTodo_requestTemplate req =
     ''{\<newline>'' @
     ''            "TableName": "'' @ tableName @ ''",\<newline>'' @
     ''            "Key": {\<newline>'' @
     ''              "id": {\<newline>'' @
     ''                "S": "'' @ input_params req @ ''"\<newline>'' @
     ''              }\<newline>'' @
     ''            },\<newline>'' @
     ''            "ConditionExpression": "attribute_exists(id)"\<newline>'' @
     ''          }''\<close>

text \<open>
  Response templates read the store's answer (JSON, parsed by the gateway) and print
  the body of the HTTP response. \<open>vtl_ref j path\<close> is what a reference such as
  \<^verbatim>\<open>$todo.title.S\<close> prints: the string found along the path, unescaped, and nothing
  when the path leads nowhere. A template also may override the status of the
  response; its result is the override (if any) and the text. The white space a
  template prints around its directives is kept as the lines of the template have it.
\<close>

fun vtl_ref :: "json \<Rightarrow> string list \<Rightarrow> string" where
  "vtl_ref (JStr s) [] = s"
| "vtl_ref j [] = []"
| "vtl_ref j (k # ks) = (case member j k of None \<Rightarrow> [] | Some v \<Rightarrow> vtl_ref v ks)"

definition todo_entry :: "json \<Rightarrow> string" where
  \<open>todo_entry todo =
     '' {\<newline>'' @
     ''                    "id": "'' @ vtl_ref todo [''id'', ''S''] @ ''",\<newline>'' @
     ''                    "title": "'' @ vtl_ref todo [''title'', ''S''] @ ''",\<newline>'' @
     ''                    "description": "'' @ vtl_ref todo [''description'', ''S''] @ ''"\<newline>'' @
     ''                  }''\<close>

fun foreach_todo :: "json list \<Rightarrow> string" where
  "foreach_todo [] = []"
| "foreach_todo [todo] = todo_entry todo @ ''\<newline>''"
| "foreach_todo (todo # todos) = todo_entry todo @ '',\<newline>'' @ foreach_todo todos"

definition scan_items :: "json \<Rightarrow> json list" where
  "scan_items inputRoot = (case member inputRoot ''Items'' of Some (JArr xs) \<Rightarrow> xs | _ \<Rightarrow> [])"

definition getAllTodos_responseTemplate :: "json \<Rightarrow> string option \<times> string" where
  \<open>getAllTodos_responseTemplate inputRoot =
     (None,
      ''\<newline>                [\<newline>'' @
      foreach_todo (scan_items inputRoot) @
      ''                ]'')\<close>

definition load_error :: string where
  \<open>load_error = ''{ "error": "There was an error loading the To-Do objects." }''\<close>

definition getSingleTodo_responseTemplate :: "json \<Rightarrow> string option \<times> string" where
  \<open>getSingleTodo_responseTemplate j =
     (case member j ''Item'' of
        None \<Rightarrow>
          (Some ''400'',
           ''\<newline>                '' @ load_error @ ''\<newline>'')
      | Some todo \<Rightarrow>
          (None,
           ''\<newline>                {\<newline>'' @
           ''                    "id": "'' @ vtl_ref todo [''id'', ''S''] @ ''",\<newline>'' @
           ''                    "title": "'' @ vtl_ref todo [''title'', ''S''] @ ''",\<newline>'' @
           ''                    "description": "'' @ vtl_ref todo [''description'', ''S''] @ ''"\<newline>'' @
           ''                }\<newline>''))\<close>

definition fixed_response :: "string \<Rightarrow> json \<Rightarrow> string option \<times> string" where
  "fixed_response text j = (None, text)"

definition created_message :: string where
  \<open>created_message = ''{ "message": "To-Do object created successfully." }''\<close>

definition create_error :: string where
  \<open>create_error = ''{ "message": "There was an error while creating a new To-Do object." }''\<close>

definition updated_message :: string where
  \<open>updated_message = ''{ "message": "To-Do object updated successfully." }''\<close>

definition update_error :: string where
  \<open>update_error = ''{ "error": "There was an error while updating the To-Do object." }''\<close>

definition deleted_message :: string where
  \<open>deleted_message = ''{ "message": "To-Do object deleted successfully." }''\<close>

definition delete_error :: string where
  \<open>delete_error = ''{ "error": "There has been an error while deleting the To-Do object." }''\<close>

section \<open>Integration responses and the five methods\<close>

text \<open>
  A selection pattern is a regular expression over the text of the store's status
  code; the two of the source, \<^verbatim>\<open>2\d{2}\<close> and \<^verbatim>\<open>4\d{2}\<close>, are a literal digit
  followed by two digits, matched against the whole code.
\<close>

datatype re_atom = Lit char | Digit

fun re_match :: "re_atom list \<Rightarrow> string \<Rightarrow> bool" where
  "re_match [] [] = True"
| "re_match (Lit a # p) (c # s) = (c = a \<and> re_match p s)"
| "re_match (Digit # p) (c # s) = (is_digit c \<and> re_match p s)"
| "re_match p s = False"

definition pattern_2xx :: "re_atom list" where
  "pattern_2xx = [Lit (CHR ''2''), Digit, Digit]"

definition pattern_4xx :: "re_atom list" where
  "pattern_4xx = [Lit (CHR ''4''), Digit, Digit]"

record integration_response =
  statusCode :: string
  selectionPattern :: "re_atom list"
  responseTemplate :: "json \<Rightarrow> string option \<times> string"

datatype store_action = Scan | PutItem | GetItem | DeleteItem

record api_method =
  action :: store_action
  requestTemplate :: "request \<Rightarrow> string"
  integrationResponses :: "integration_response list"
  requestModel :: "schema option"

definition getAllTodos :: api_method where
  "getAllTodos =
     \<lparr> action = Scan,
       requestTemplate = getAllTodos_requestTemplate,
       integrationResponses =
         [\<lparr> statusCode = ''200'', selectionPattern = pattern_2xx,
            responseTemplate = getAllTodos_responseTemplate \<rparr>,
          \<lparr> statusCode = ''400'', selectionPattern = pattern_4xx,
            responseTemplate = fixed_response load_error \<rparr>],
       requestModel = None \<rparr>"

definition createTodo :: api_method where
  "createTodo =
     \<lparr> action = PutItem,
       requestTemplate = createTodo_requestTemplate,
       integrationResponses =
         [\<lparr> statusCode = ''200'', selectionPattern = pattern_2xx,
            responseTemplate = fixed_response created_message \<rparr>,
          \<lparr> statusCode = ''400'', selectionPattern = pattern_4xx,
            responseTemplate = fixed_response create_error \<rparr>],
       requestModel = Some todoModel \<rparr>"

definition getSingleTodo :: api_method where
  "getSingleTodo =
     \<lparr> action = GetItem,
       requestTemplate = getSingleTodo_requestTemplate,
       integrationResponses =
         [\<lparr> statusCode = ''200'', selectionPattern = pattern_2xx,
            responseTemplate = getSingleTodo_responseTemplate \<rparr>,
          \<lparr> statusCode = ''400'', selectionPattern = pattern_4xx,
            responseTemplate = fixed_response load_error \<rparr>],
       requestModel = None \<rparr>"

definition updateSingleTodo :: api_method where
  "updateSingleTodo =
     \<lparr> action = PutItem,
       requestTemplate = updateSingleTodo_requestTemplate,
       integrationResponses =
         [\<lparr> statusCode = ''200'', selectionPattern = pattern_2xx,
            responseTemplate = fixed_response updated_message \<rparr>,
          \<lparr> statusCode = ''400'', selectionPattern = pattern_4xx,
            responseTemplate = fixed_response update_error \<rparr>],
       requestModel = Some todoModel \<rparr>"

definition deleteSingleTodo :: api_method where
  "deleteSingleTodo =
     \<lparr> action = DeleteItem,
       requestTemplate = deleteSingleTodo_requestTemplate,
       integrationResponses =
         [\<lparr> statusCode = ''200'', selectionPattern = pattern_2xx,
            responseTemplate = fixed_response deleted_message \<rparr>,
          \<lparr> statusCode = ''400'', selectionPattern = pattern_4xx,
            responseTemplate = fixed_response delete_error \<rparr>],
       requestModel = None \<rparr>"


section \<open>The table and the store's interface\<close>

text \<open>
  Modelled from the spec: the key-value store, which is not part of the repository
  (section 4.2 of the specification: a scan with a limit, a put and a delete with a
  condition on the existence of the key that is checked and applied in one step, a get
  that returns the item or nothing; each answers with a success or with a failure and
  its status code). The table of the source (lines 79-85) is \<open>todos\<close>, with the
  string attribute \<open>id\<close> as its partition key. The four operations read the
  payload text that a request template rendered, as JSON. An item is a list of string
  attributes (the templates write attributes of type \<open>S\<close> only); a table lists its
  items by key, in the order a scan returns them.
\<close>

type_synonym item = "(string \<times> string) list"
type_synonym table = "(string \<times> item) list"

definition attr_json :: "string \<times> string \<Rightarrow> string \<times> json" where
  "attr_json a = (fst a, JObj [(''S'', JStr (snd a))])"

definition item_json :: "item \<Rightarrow> json" where
  "item_json it = JObj (map attr_json it)"

text \<open>
  The store's reader takes an object as a map: of the members that repeat a name it
  keeps the last. \<open>read_member\<close> is its lookup in the payload, and an item it
  decodes holds each attribute name once.
\<close>

fun last_wins :: "(string \<times> 'a) list \<Rightarrow> (string \<times> 'a) list" where
  "last_wins [] = []"
| "last_wins (m # ms) = (if fst m \<in> set (map fst ms) then last_wins ms else m # last_wins ms)"

definition read_member :: "json \<Rightarrow> string \<Rightarrow> json option" where
  "read_member j k = (case j of JObj ms \<Rightarrow> map_of (last_wins ms) k | other \<Rightarrow> None)"

definition decode_attr :: "string \<times> json \<Rightarrow> (string \<times> string) option" where
  "decode_attr a =
     (case snd a of
        JObj ms \<Rightarrow>
          (case last_wins ms of
             [(ty, JStr v)] \<Rightarrow> if ty = ''S'' then Some (fst a, v) else None
           | other \<Rightarrow> None)
      | other \<Rightarrow> None)"

fun decode_item :: "json \<Rightarrow> item option" where
  "decode_item (JObj ms) = map_option last_wins (those (map decode_attr ms))"
| "decode_item j = None"

text \<open>The key of an item: its \<open>id\<close>, which the store requires to be a non-empty string.\<close>

definition key_of :: "item \<Rightarrow> string option" where
  "key_of it =
     (case map_of it ''id'' of
        None \<Rightarrow> None
      | Some k \<Rightarrow> if k = [] then None else Some k)"

datatype condition = attribute_not_exists | attribute_exists

definition decode_condition :: "json \<Rightarrow> condition option option" where
  "decode_condition j =
     (case read_member j ''ConditionExpression'' of
        None \<Rightarrow> Some None
      | Some (JStr e) \<Rightarrow>
          if e = ''attribute_not_exists(id)'' then Some (Some attribute_not_exists)
          else if e = ''attribute_exists(id)'' then Some (Some attribute_exists)
          else None
      | Some other \<Rightarrow> None)"

definition names_table :: "json \<Rightarrow> bool" where
  "names_table j = (read_member j ''TableName'' = Some (JStr tableName))"

definition decode_PutItem :: "string \<Rightarrow> (item \<times> condition option) option" where
  "decode_PutItem payload =
     do {
       j \<leftarrow> parse_json payload;
       ij \<leftarrow> (if names_table j then read_member j ''Item'' else None);
       it \<leftarrow> decode_item ij;
       cond \<leftarrow> decode_condition j;
       Some (it, cond)
     }"

definition decode_Key :: "string \<Rightarrow> (string \<times> condition option) option" where
  "decode_Key payload =
     do {
       j \<leftarrow> parse_json payload;
       kj \<leftarrow> (if names_table j then read_member j ''Key'' else None);
       it \<leftarrow> decode_item kj;
       k \<leftarrow> (if map fst it = [''id''] then key_of it else None);
       cond \<leftarrow> decode_condition j;
       Some (k, cond)
     }"

definition decode_Scan :: "string \<Rightarrow> nat option option" where
  "decode_Scan payload =
     do {
       j \<leftarrow> parse_json payload;
       (if \<not> names_table j then None
        else
          (case read_member j ''Limit'' of
             None \<Rightarrow> Some None
           | Some (JNum n) \<Rightarrow> if 1 \<le> n then Some (Some (nat n)) else None
           | Some other \<Rightarrow> None))
     }"

definition condition_holds :: "condition option \<Rightarrow> item option \<Rightarrow> bool" where
  "condition_holds cond stored =
     (case cond of
        None \<Rightarrow> True
      | Some attribute_not_exists \<Rightarrow> stored = None
      | Some attribute_exists \<Rightarrow> stored \<noteq> None)"

definition store_error :: "string \<Rightarrow> string \<times> json" where
  "store_error name = (''400'', JObj [(''__type'', JStr name)])"

definition put_item :: "string \<Rightarrow> table \<Rightarrow> (string \<times> json) \<times> table" where
  "put_item payload tbl =
     (case decode_PutItem payload of
        None \<Rightarrow> (store_error ''ValidationException'', tbl)
      | Some (it, cond) \<Rightarrow>
          (case key_of it of
             None \<Rightarrow> (store_error ''ValidationException'', tbl)
           | Some k \<Rightarrow>
               if condition_holds cond (map_of tbl k)
               then ((''200'', JObj []), AList.update k it tbl)
               else (store_error ''ConditionalCheckFailedException'', tbl)))"

definition get_item :: "string \<Rightarrow> table \<Rightarrow> (string \<times> json) \<times> table" where
  "get_item payload tbl =
     (case decode_Key payload of
        None \<Rightarrow> (store_error ''ValidationException'', tbl)
      | Some (k, cond) \<Rightarrow>
          (case map_of tbl k of
             None \<Rightarrow> ((''200'', JObj []), tbl)
           | Some it \<Rightarrow> ((''200'', JObj [(''Item'', item_json it)]), tbl)))"

definition delete_item :: "string \<Rightarrow> table \<Rightarrow> (string \<times> json) \<times> table" where
  "delete_item payload tbl =
     (case decode_Key payload of
        None \<Rightarrow> (store_error ''ValidationException'', tbl)
      | Some (k, cond) \<Rightarrow>
          if condition_holds cond (map_of tbl k)
          then ((''200'', JObj []), AList.delete k tbl)
          else (store_error ''ConditionalCheckFailedException'', tbl))"

definition scan :: "string \<Rightarrow> table \<Rightarrow> (string \<times> json) \<times> table" where
  "scan payload tbl =
     (case decode_Scan payload of
        None \<Rightarrow> (store_error ''ValidationException'', tbl)
      | Some limit \<Rightarrow>
          (let page = (case limit of None \<Rightarrow> tbl | Some n \<Rightarrow> take n tbl)
           in ((''200'',
                JObj ([(''Count'', JNum (int (length page))),
                       (''Items'', JArr (map (item_json \<circ> snd) page))] @
                      (if length page < length tbl
                       then [(''LastEvaluatedKey'', item_json [(''id'', fst (last page))])]
                       else []))),
               tbl)))"

text \<open>
  A store call. \<open>fault\<close> is a failure of the store that is neither a rejected payload
  nor a failed condition (throttling, an internal fault): the store then answers with
  the status code of the fault and applies nothing.
\<close>

definition store_call ::
  "string option \<Rightarrow> store_action \<Rightarrow> string \<Rightarrow> table \<Rightarrow> (string \<times> json) \<times> table" where
  "store_call fault a payload tbl =
     (case fault of
        Some st \<Rightarrow> ((st, JObj [(''__type'', JStr ''Fault'')]), tbl)
      | None \<Rightarrow>
          (case a of
             Scan \<Rightarrow> scan payload tbl
           | PutItem \<Rightarrow> put_item payload tbl
           | GetItem \<Rightarrow> get_item payload tbl
           | DeleteItem \<Rightarrow> delete_item payload tbl))"

section \<open>One request through the gateway\<close>

text \<open>
  Modelled from the spec: the gateway that runs the five methods, which is not part of
  the repository (sections 2 and 4.3 of the specification: a request is received,
  validated, dispatched, classified and responded to, with one store call and no retry).
  The gateway validates the body where the method has a request model, renders the
  request template, calls the store once, selects the first integration response whose
  pattern matches the store's status code, and renders its template. A request that
  fails validation is \<open>Rejected\<close> and makes no store call; a status code that no
  pattern matches leaves the request \<open>Unmapped\<close> (none of the five methods
  configures a default integration response). The outcome records the response, the
  store calls made, and the table afterwards.
\<close>

datatype response = Rejected | Responded string string | Unmapped string

record outcome =
  reply :: response
  calls :: "(store_action \<times> string) list"
  stored :: table

definition select_response :: "integration_response list \<Rightarrow> string \<Rightarrow> integration_response option" where
  "select_response irs st = find (\<lambda>ir. re_match (selectionPattern ir) st) irs"

definition map_response :: "api_method \<Rightarrow> string \<times> json \<Rightarrow> response" where
  "map_response m ans =
     (case select_response (integrationResponses m) (fst ans) of
        None \<Rightarrow> Unmapped (fst ans)
      | Some ir \<Rightarrow>
          (case responseTemplate ir (snd ans) of
             (override, text) \<Rightarrow>
               Responded (case override of None \<Rightarrow> statusCode ir | Some st \<Rightarrow> st) text))"

definition accepts :: "api_method \<Rightarrow> request \<Rightarrow> bool" where
  "accepts m req = (case requestModel m of None \<Rightarrow> True | Some sc \<Rightarrow> valid_body sc (body req))"

definition handle :: "api_method \<Rightarrow> request \<Rightarrow> string option \<Rightarrow> table \<Rightarrow> outcome" where
  "handle m req fault tbl =
     (if \<not> accepts m req then \<lparr> reply = Rejected, calls = [], stored = tbl \<rparr>
      else
        (let payload = requestTemplate m req;
             result = store_call fault (action m) payload tbl
         in \<lparr> reply = map_response m (fst result),
              calls = [(action m, payload)],
              stored = snd result \<rparr>))"

text \<open>The status line the client sees: the gateway answers a rejected body with 400
  and a request it could not map with 500.\<close>

fun http_status :: "response \<Rightarrow> string" where
  "http_status Rejected = ''400''"
| "http_status (Responded st text) = st"
| "http_status (Unmapped st) = ''500''"

fun response_json :: "response \<Rightarrow> json option" where
  "response_json (Responded st text) = parse_json text"
| "response_json r = None"

text \<open>
  Strings that a template can print between two quotes without changing the JSON
  around them: no double quote, no backslash, no control character. A body of the
  three string members, as a client sends it.
\<close>

definition plain :: "string \<Rightarrow> bool" where
  "plain s = list_all (\<lambda>c. c \<noteq> dquote \<and> c \<noteq> backslash \<and> 32 \<le> (of_char c :: nat)) s"

definition todo_body :: "string \<Rightarrow> string \<Rightarrow> string \<Rightarrow> json" where
  "todo_body i t d = JObj [(''id'', JStr i), (''title'', JStr t), (''description'', JStr d)]"

definition todo_item :: "string \<Rightarrow> string \<Rightarrow> string \<Rightarrow> item" where
  "todo_item i t d = [(''id'', i), (''title'', t), (''description'', d)]"

text \<open>The store's answer to the operation a request is mapped to.\<close>

definition store_answer :: "api_method \<Rightarrow> request \<Rightarrow> table \<Rightarrow> string \<times> json" where
  "store_answer m req tbl = fst (store_call None (action m) (requestTemplate m req) tbl)"

text \<open>The table is keyed by \<open>id\<close>: every item it holds has its key as its \<open>id\<close>.\<close>

definition keyed :: "table \<Rightarrow> bool" where
  "keyed tbl = list_all (\<lambda>(k, it). map_of it ''id'' = Some k) tbl"

text \<open>
  What a response template prints for an attribute of an item, the object a client reads
  for an item, and the items whose three attributes are plain.
\<close>

definition attr :: "item \<Rightarrow> string \<Rightarrow> string" where
  "attr it k = (case map_of it k of None \<Rightarrow> [] | Some v \<Rightarrow> v)"

definition todo_json :: "item \<Rightarrow> json" where
  "todo_json it = todo_body (attr it ''id'') (attr it ''title'') (attr it ''description'')"

definition plain_item :: "item \<Rightarrow> bool" where
  "plain_item it = (plain (attr it ''id'') \<and> plain (attr it ''title'') \<and> plain (attr it ''description''))"

text \<open>Creating todos one after the other, each with its own request, from a table.\<close>

fun create_all :: "(string \<times> string \<times> string) list \<Rightarrow> table \<Rightarrow> table" where
  "create_all [] tbl = tbl"
| "create_all ((i, t, d) # todos) tbl =
     create_all todos
       (stored (handle createTodo \<lparr> todoId = [], body = Some (todo_body i t d) \<rparr> None tbl))"

definition fifteen_todos :: "(string \<times> string \<times> string) list" where
  "fifteen_todos =
     map (\<lambda>i. (i, ''title '' @ i, ''description '' @ i))
       [''t01'', ''t02'', ''t03'', ''t04'', ''t05'', ''t06'', ''t07'', ''t08'', ''t09'',
        ''t10'', ''t11'', ''t12'', ''t13'', ''t14'', ''t15'']"

text \<open>
  Six todos whose title holds escaped quotes: the store reads the escapes, so the title
  it stores closes its own string, and the object around it, when a response template
  prints it. The number of elements of a response that is an array.
\<close>

definition six_split_todos :: "(string \<times> string \<times> string) list" where
  \<open>six_split_todos =
     map (\<lambda>i. (i, ''a'' @ [backslash] @ ''"}, {'' @ [backslash] @ ''"id'' @ [backslash] @
                    ''": '' @ [backslash] @ ''"x'', ''d''))
       [''s1'', ''s2'', ''s3'', ''s4'', ''s5'', ''s6'']\<close>

fun array_size :: "json \<Rightarrow> nat option" where
  "array_size (JArr xs) = Some (length xs)"
| "array_size j = None"

section \<open>Reading the rendered payloads\<close>

text \<open>
  A plain string printed between two quotes is read back as itself, so each request
  template, on plain values, is the JSON encoding of the operation it is meant to be.
\<close>

lemma parse_str_plain: "plain s \<Longrightarrow> parse_str (s @ dquote # r) = Some (s, r)"
  by (induction s) (auto simp: plain_def)

lemma decode_createTodo:
  assumes "plain (input_path req ''id'')" "plain (input_path req ''title'')"
    "plain (input_path req ''description'')"
  shows "decode_PutItem (createTodo_requestTemplate req) =
    Some (todo_item (input_path req ''id'') (input_path req ''title'')
            (input_path req ''description''), Some attribute_not_exists)"
  using assms
  by (simp add: decode_PutItem_def parse_json_def createTodo_requestTemplate_def tableName_def
      is_ws_def parse_str_plain names_table_def read_member_def decode_attr_def decode_condition_def todo_item_def)

lemma decode_updateSingleTodo:
  assumes "plain (input_params req)" "plain (input_path req ''title'')"
    "plain (input_path req ''description'')"
  shows "decode_PutItem (updateSingleTodo_requestTemplate req) =
    Some (todo_item (input_params req) (input_path req ''title'')
            (input_path req ''description''), Some attribute_exists)"
  using assms
  by (simp add: decode_PutItem_def parse_json_def updateSingleTodo_requestTemplate_def tableName_def
      is_ws_def parse_str_plain names_table_def read_member_def decode_attr_def decode_condition_def todo_item_def)

lemma decode_getSingleTodo:
  assumes "plain (input_params req)"
  shows "decode_Key (getSingleTodo_requestTemplate req) =
    (if input_params req = [] then None else Some (input_params req, None))"
  using assms
  by (simp add: decode_Key_def parse_json_def getSingleTodo_requestTemplate_def tableName_def
      is_ws_def parse_str_plain names_table_def read_member_def decode_attr_def decode_condition_def key_of_def)

lemma decode_deleteSingleTodo:
  assumes "plain (input_params req)"
  shows "decode_Key (deleteSingleTodo_requestTemplate req) =
    (if input_params req = [] then None else Some (input_params req, Some attribute_exists))"
  using assms
  by (simp add: decode_Key_def parse_json_def deleteSingleTodo_requestTemplate_def tableName_def
      is_ws_def parse_str_plain names_table_def read_member_def decode_attr_def decode_condition_def key_of_def)

lemma decode_getAllTodos: "decode_Scan (getAllTodos_requestTemplate req) = Some (Some 10)"
  by (simp add: decode_Scan_def parse_json_def getAllTodos_requestTemplate_def tableName_def
      is_ws_def names_table_def read_member_def is_digit_def digits_value_def)

section \<open>Selecting and rendering the response\<close>

lemma re_match_3:
  "re_match [Lit c, Digit, Digit] st \<longleftrightarrow> (\<exists>a b. st = [c, a, b] \<and> is_digit a \<and> is_digit b)"
  by (cases st; cases "tl st"; cases "tl (tl st)"; cases "tl (tl (tl st))"; auto)

lemma select_2xx:
  "select_response [\<lparr> statusCode = a, selectionPattern = pattern_2xx, responseTemplate = f \<rparr>,
     \<lparr> statusCode = b, selectionPattern = pattern_4xx, responseTemplate = g \<rparr>] ''200'' =
   Some \<lparr> statusCode = a, selectionPattern = pattern_2xx, responseTemplate = f \<rparr>"
  by (simp add: select_response_def pattern_2xx_def pattern_4xx_def is_digit_def)

lemma select_4xx:
  "re_match pattern_4xx st \<Longrightarrow>
   select_response [\<lparr> statusCode = a, selectionPattern = pattern_2xx, responseTemplate = f \<rparr>,
     \<lparr> statusCode = b, selectionPattern = pattern_4xx, responseTemplate = g \<rparr>] st =
   Some \<lparr> statusCode = b, selectionPattern = pattern_4xx, responseTemplate = g \<rparr>"
  by (auto simp add: select_response_def pattern_2xx_def pattern_4xx_def re_match_3)

lemma re_match_400: "re_match pattern_4xx ''400''"
  by (simp add: pattern_4xx_def is_digit_def)

lemma map_response_ok:
  "map_response createTodo (''200'', j) = Responded ''200'' created_message"
  "map_response updateSingleTodo (''200'', j) = Responded ''200'' updated_message"
  "map_response deleteSingleTodo (''200'', j) = Responded ''200'' deleted_message"
  "map_response getAllTodos (''200'', j) = Responded ''200'' (snd (getAllTodos_responseTemplate j))"
  "map_response getSingleTodo (''200'', j) =
     Responded (if member j ''Item'' = None then ''400'' else ''200'')
       (snd (getSingleTodo_responseTemplate j))"
  by (simp_all add: map_response_def createTodo_def updateSingleTodo_def deleteSingleTodo_def
      getAllTodos_def getSingleTodo_def select_2xx fixed_response_def getAllTodos_responseTemplate_def
      getSingleTodo_responseTemplate_def split: option.splits)

lemma map_response_4xx:
  assumes "re_match pattern_4xx st"
  shows "map_response createTodo (st, j) = Responded ''400'' create_error"
    "map_response updateSingleTodo (st, j) = Responded ''400'' update_error"
    "map_response deleteSingleTodo (st, j) = Responded ''400'' delete_error"
    "map_response getAllTodos (st, j) = Responded ''400'' load_error"
    "map_response getSingleTodo (st, j) = Responded ''400'' load_error"
  using assms
  by (simp_all add: map_response_def createTodo_def updateSingleTodo_def deleteSingleTodo_def
      getAllTodos_def getSingleTodo_def select_4xx fixed_response_def)

lemma map_response_error:
  "map_response createTodo (store_error e) = Responded ''400'' create_error"
  "map_response updateSingleTodo (store_error e) = Responded ''400'' update_error"
  "map_response deleteSingleTodo (store_error e) = Responded ''400'' delete_error"
  "map_response getAllTodos (store_error e) = Responded ''400'' load_error"
  "map_response getSingleTodo (store_error e) = Responded ''400'' load_error"
  by (simp_all add: store_error_def map_response_4xx [OF re_match_400])

section \<open>The methods on plain values\<close>

lemma method_fields:
  "action getAllTodos = Scan" "requestTemplate getAllTodos = getAllTodos_requestTemplate"
  "requestModel getAllTodos = None"
  "action createTodo = PutItem" "requestTemplate createTodo = createTodo_requestTemplate"
  "requestModel createTodo = Some todoModel"
  "action getSingleTodo = GetItem" "requestTemplate getSingleTodo = getSingleTodo_requestTemplate"
  "requestModel getSingleTodo = None"
  "action updateSingleTodo = PutItem"
  "requestTemplate updateSingleTodo = updateSingleTodo_requestTemplate"
  "requestModel updateSingleTodo = Some todoModel"
  "action deleteSingleTodo = DeleteItem"
  "requestTemplate deleteSingleTodo = deleteSingleTodo_requestTemplate"
  "requestModel deleteSingleTodo = None"
  by (simp_all add: getAllTodos_def createTodo_def getSingleTodo_def updateSingleTodo_def
      deleteSingleTodo_def)

lemma accepts_unvalidated:
  "accepts getAllTodos req" "accepts getSingleTodo req" "accepts deleteSingleTodo req"
  by (simp_all add: accepts_def method_fields)

lemma handle_createTodo:
  assumes "accepts createTodo req"
    and "plain (input_path req ''id'')" and "plain (input_path req ''title'')"
    and "plain (input_path req ''description'')"
  shows "handle createTodo req None tbl =
    (if input_path req ''id'' \<noteq> [] \<and> map_of tbl (input_path req ''id'') = None
     then \<lparr> reply = Responded ''200'' created_message,
            calls = [(PutItem, createTodo_requestTemplate req)],
            stored = AList.update (input_path req ''id'')
              (todo_item (input_path req ''id'') (input_path req ''title'')
                 (input_path req ''description'')) tbl \<rparr>
     else \<lparr> reply = Responded ''400'' create_error,
            calls = [(PutItem, createTodo_requestTemplate req)],
            stored = tbl \<rparr>)"
  using assms
  by (simp add: handle_def method_fields store_call_def put_item_def decode_createTodo
      key_of_def condition_holds_def map_response_ok map_response_error todo_item_def)

lemma handle_updateSingleTodo:
  assumes "accepts updateSingleTodo req"
    and "plain (input_params req)" and "plain (input_path req ''title'')"
    and "plain (input_path req ''description'')"
  shows "handle updateSingleTodo req None tbl =
    (if input_params req \<noteq> [] \<and> map_of tbl (input_params req) \<noteq> None
     then \<lparr> reply = Responded ''200'' updated_message,
            calls = [(PutItem, updateSingleTodo_requestTemplate req)],
            stored = AList.update (input_params req)
              (todo_item (input_params req) (input_path req ''title'')
                 (input_path req ''description'')) tbl \<rparr>
     else \<lparr> reply = Responded ''400'' update_error,
            calls = [(PutItem, updateSingleTodo_requestTemplate req)],
            stored = tbl \<rparr>)"
  using assms
  by (simp add: handle_def method_fields store_call_def put_item_def decode_updateSingleTodo
      key_of_def condition_holds_def map_response_ok map_response_error todo_item_def)

lemma handle_deleteSingleTodo:
  assumes "plain (input_params req)"
  shows "handle deleteSingleTodo req None tbl =
    (if input_params req \<noteq> [] \<and> map_of tbl (input_params req) \<noteq> None
     then \<lparr> reply = Responded ''200'' deleted_message,
            calls = [(DeleteItem, deleteSingleTodo_requestTemplate req)],
            stored = AList.delete (input_params req) tbl \<rparr>
     else \<lparr> reply = Responded ''400'' delete_error,
            calls = [(DeleteItem, deleteSingleTodo_requestTemplate req)],
            stored = tbl \<rparr>)"
  using assms
  by (auto simp add: handle_def method_fields accepts_unvalidated store_call_def delete_item_def
      decode_deleteSingleTodo condition_holds_def map_response_ok map_response_error)

lemma handle_getSingleTodo:
  assumes "plain (input_params req)"
  shows "handle getSingleTodo req None tbl =
    \<lparr> reply =
        (if input_params req = [] then Responded ''400'' load_error
         else case map_of tbl (input_params req) of
                None \<Rightarrow> Responded ''400'' (snd (getSingleTodo_responseTemplate (JObj [])))
              | Some it \<Rightarrow>
                  Responded ''200''
                    (snd (getSingleTodo_responseTemplate (JObj [(''Item'', item_json it)])))),
      calls = [(GetItem, getSingleTodo_requestTemplate req)],
      stored = tbl \<rparr>"
  using assms
  by (auto simp add: handle_def method_fields accepts_unvalidated store_call_def get_item_def
      decode_getSingleTodo map_response_ok map_response_error split: option.splits)

lemma accepts_todo_body:
  "accepts createTodo \<lparr> todoId = p, body = Some (todo_body i t d) \<rparr>"
  "accepts updateSingleTodo \<lparr> todoId = p, body = Some (todo_body i t d) \<rparr>"
  by (simp_all add: accepts_def method_fields valid_body_def validates_def todoModel_def
      todo_body_def)

lemma input_path_todo_body:
  "input_path \<lparr> todoId = p, body = Some (todo_body i t d) \<rparr> ''id'' = i"
  "input_path \<lparr> todoId = p, body = Some (todo_body i t d) \<rparr> ''title'' = t"
  "input_path \<lparr> todoId = p, body = Some (todo_body i t d) \<rparr> ''description'' = d"
  by (simp_all add: input_path_def todo_body_def)

lemma reply_handle:
  "accepts m req \<Longrightarrow> reply (handle m req None tbl) = map_response m (store_answer m req tbl)"
  by (simp add: handle_def store_answer_def Let_def)

lemmas store_reader_defs = decode_PutItem_def decode_Key_def parse_json_def tableName_def is_ws_def
  names_table_def read_member_def decode_attr_def decode_condition_def key_of_def
  condition_holds_def unescape_def

section \<open>Conditional writes\<close>

text \<open>
  Claim C1, as amended. For every id, title and description that are plain (no double
  quote, no backslash, no control character), the id not empty:
  a create against a key that exists, and an update or a delete against a key that does
  not, gets the store's \<open>ConditionalCheckFailedException\<close>, is answered with 400 and
  the message of the operation, and leaves the table as it was; when the key is absent
  the create, and when it is present the update and the delete, are answered with 200
  and applied.
\<close>

theorem conditional_check:
  fixes i t d b p :: string and tbl :: table
  assumes "plain i" and "i \<noteq> []" and "plain t" and "plain d"
  shows "let create = \<lparr> todoId = p, body = Some (todo_body i t d) \<rparr>;
             update = \<lparr> todoId = i, body = Some (todo_body b t d) \<rparr>;
             delete = \<lparr> todoId = i, body = None \<rparr>
         in if map_of tbl i = None
            then reply (handle createTodo create None tbl) = Responded ''200'' created_message
               \<and> stored (handle createTodo create None tbl) = AList.update i (todo_item i t d) tbl
               \<and> store_answer updateSingleTodo update tbl = store_error ''ConditionalCheckFailedException''
               \<and> reply (handle updateSingleTodo update None tbl) = Responded ''400'' update_error
               \<and> stored (handle updateSingleTodo update None tbl) = tbl
               \<and> store_answer deleteSingleTodo delete tbl = store_error ''ConditionalCheckFailedException''
               \<and> reply (handle deleteSingleTodo delete None tbl) = Responded ''400'' delete_error
               \<and> stored (handle deleteSingleTodo delete None tbl) = tbl
            else store_answer createTodo create tbl = store_error ''ConditionalCheckFailedException''
               \<and> reply (handle createTodo create None tbl) = Responded ''400'' create_error
               \<and> stored (handle createTodo create None tbl) = tbl
               \<and> reply (handle updateSingleTodo update None tbl) = Responded ''200'' updated_message
               \<and> stored (handle updateSingleTodo update None tbl) = AList.update i (todo_item i t d) tbl
               \<and> reply (handle deleteSingleTodo delete None tbl) = Responded ''200'' deleted_message
               \<and> stored (handle deleteSingleTodo delete None tbl) = AList.delete i tbl"
proof -
  let ?create = "\<lparr> todoId = p, body = Some (todo_body i t d) \<rparr>"
  let ?update = "\<lparr> todoId = i, body = Some (todo_body b t d) \<rparr>"
  let ?delete = "\<lparr> todoId = i, body = None :: json option \<rparr>"
  have c: "handle createTodo ?create None tbl =
      (if map_of tbl i = None
       then \<lparr> reply = Responded ''200'' created_message,
              calls = [(PutItem, createTodo_requestTemplate ?create)],
              stored = AList.update i (todo_item i t d) tbl \<rparr>
       else \<lparr> reply = Responded ''400'' create_error,
              calls = [(PutItem, createTodo_requestTemplate ?create)], stored = tbl \<rparr>)"
    using assms handle_createTodo [of ?create tbl]
    by (simp add: accepts_todo_body input_path_todo_body)
  have u: "handle updateSingleTodo ?update None tbl =
      (if map_of tbl i \<noteq> None
       then \<lparr> reply = Responded ''200'' updated_message,
              calls = [(PutItem, updateSingleTodo_requestTemplate ?update)],
              stored = AList.update i (todo_item i t d) tbl \<rparr>
       else \<lparr> reply = Responded ''400'' update_error,
              calls = [(PutItem, updateSingleTodo_requestTemplate ?update)], stored = tbl \<rparr>)"
    using assms handle_updateSingleTodo [of ?update tbl]
    by (simp add: accepts_todo_body input_path_todo_body input_params_def)
  have d: "handle deleteSingleTodo ?delete None tbl =
      (if map_of tbl i \<noteq> None
       then \<lparr> reply = Responded ''200'' deleted_message,
              calls = [(DeleteItem, deleteSingleTodo_requestTemplate ?delete)],
              stored = AList.delete i tbl \<rparr>
       else \<lparr> reply = Responded ''400'' delete_error,
              calls = [(DeleteItem, deleteSingleTodo_requestTemplate ?delete)], stored = tbl \<rparr>)"
    using assms handle_deleteSingleTodo [of ?delete tbl]
    by (simp add: input_params_def)
  have sc: "map_of tbl i \<noteq> None \<Longrightarrow>
      store_answer createTodo ?create tbl = store_error ''ConditionalCheckFailedException''"
    using assms
    by (auto simp add: store_answer_def method_fields store_call_def put_item_def decode_createTodo
        input_path_todo_body key_of_def condition_holds_def todo_item_def)
  have su: "map_of tbl i = None \<Longrightarrow>
      store_answer updateSingleTodo ?update tbl = store_error ''ConditionalCheckFailedException''"
    using assms
    by (simp add: store_answer_def method_fields store_call_def put_item_def decode_updateSingleTodo
        input_path_todo_body input_params_def key_of_def condition_holds_def todo_item_def)
  have sd: "map_of tbl i = None \<Longrightarrow>
      store_answer deleteSingleTodo ?delete tbl = store_error ''ConditionalCheckFailedException''"
    using assms
    by (simp add: store_answer_def method_fields store_call_def delete_item_def
        decode_deleteSingleTodo input_params_def condition_holds_def)
  show ?thesis
    unfolding Let_def using sc su sd by (simp add: c u d)
qed

theorem conditional_check_witness:
  "plain ''1'' \<and> plain ''A'' \<and> plain ''B''
   \<and> reply (handle createTodo \<lparr> todoId = [], body = Some (todo_body ''1'' ''A'' ''B'') \<rparr> None []) =
       Responded ''200'' created_message
   \<and> reply (handle deleteSingleTodo \<lparr> todoId = ''1'', body = None \<rparr> None []) =
       Responded ''400'' delete_error
   \<and> reply (handle createTodo \<lparr> todoId = [], body = Some (todo_body ''1'' ''A'' ''B'') \<rparr> None
        [(''1'', todo_item ''1'' ''X'' ''Y'')]) = Responded ''400'' create_error
   \<and> stored (handle updateSingleTodo \<lparr> todoId = ''1'', body = Some (todo_body ''2'' ''A'' ''B'') \<rparr> None
        [(''1'', todo_item ''1'' ''X'' ''Y'')]) = [(''1'', todo_item ''1'' ''A'' ''B'')]"
  using conditional_check [where i = "''1''" and t = "''A''" and d = "''B''" and b = "''2''"
      and p = "[]" and tbl = "[]"]
    conditional_check [where i = "''1''" and t = "''A''" and d = "''B''" and b = "''2''"
      and p = "[]" and tbl = "[(''1'', todo_item ''1'' ''X'' ''Y'')]"]
  by (simp add: plain_def Let_def)

text \<open>
  The claim as first stated ranges over every id and body. A description with a line
  break passes validation, but the template prints it unescaped into the payload, the
  store rejects the payload, and the create is answered with 400 although no item has
  the key.
\<close>

theorem conditional_check_counterexample:
  "accepts createTodo \<lparr> todoId = [], body = Some (todo_body ''1'' ''A'' ''B\<newline>C'') \<rparr>
   \<and> map_of ([] :: table) ''1'' = None
   \<and> reply (handle createTodo \<lparr> todoId = [], body = Some (todo_body ''1'' ''A'' ''B\<newline>C'') \<rparr> None []) =
       Responded ''400'' create_error"
  by (simp add: accepts_todo_body handle_def method_fields store_call_def put_item_def
      decode_PutItem_def parse_json_def createTodo_requestTemplate_def input_path_todo_body
      tableName_def is_ws_def map_response_error)

lemma parse_todo_object:
  assumes "plain i" and "plain t" and "plain d"
  shows "parse_json (snd (getSingleTodo_responseTemplate (JObj [(''Item'', item_json (todo_item i t d))])))
    = Some (todo_body i t d)"
  using assms
  by (simp add: getSingleTodo_responseTemplate_def item_json_def todo_item_def attr_json_def
      parse_json_def is_ws_def parse_str_plain todo_body_def)

section \<open>Create, then read\<close>

text \<open>
  Claim C2, as amended. For every id, title and description that are plain strings (no
  double quote, no backslash, no control character), and every table: when the create
  of the todo is answered with 200, a GET of its id on the table the create left is
  answered with 200 and a body that is exactly the object of the three members.
\<close>

theorem round_trip:
  fixes i t d p :: string and b :: "json option" and tbl :: table
  assumes "plain i" and "plain t" and "plain d"
    and "http_status (reply (handle createTodo \<lparr> todoId = p, body = Some (todo_body i t d) \<rparr> None tbl)) = ''200''"
  shows "let created = stored (handle createTodo \<lparr> todoId = p, body = Some (todo_body i t d) \<rparr> None tbl);
             got = reply (handle getSingleTodo \<lparr> todoId = i, body = b \<rparr> None created)
         in http_status got = ''200'' \<and> response_json got = Some (todo_body i t d)"
proof -
  let ?create = "\<lparr> todoId = p, body = Some (todo_body i t d) \<rparr>"
  have c: "handle createTodo ?create None tbl =
      (if i \<noteq> [] \<and> map_of tbl i = None
       then \<lparr> reply = Responded ''200'' created_message,
              calls = [(PutItem, createTodo_requestTemplate ?create)],
              stored = AList.update i (todo_item i t d) tbl \<rparr>
       else \<lparr> reply = Responded ''400'' create_error,
              calls = [(PutItem, createTodo_requestTemplate ?create)], stored = tbl \<rparr>)"
    using assms(1-3) handle_createTodo [of ?create tbl]
    by (simp add: accepts_todo_body input_path_todo_body)
  from assms(4) have ok: "i \<noteq> []" "map_of tbl i = None"
    by (auto simp add: c split: if_splits)
  have s: "stored (handle createTodo ?create None tbl) = AList.update i (todo_item i t d) tbl"
    using ok by (simp add: c)
  have g: "reply (handle getSingleTodo \<lparr> todoId = i, body = b \<rparr> None
        (AList.update i (todo_item i t d) tbl)) =
      Responded ''200''
        (snd (getSingleTodo_responseTemplate (JObj [(''Item'', item_json (todo_item i t d))])))"
    using assms(1) ok
    by (simp add: handle_getSingleTodo input_params_def update_conv')
  show ?thesis
    using assms(1-3) by (simp add: Let_def s g parse_todo_object)
qed

theorem round_trip_witness:
  "plain ''1'' \<and> plain ''A'' \<and> plain ''B''
   \<and> http_status (reply (handle createTodo \<lparr> todoId = [], body = Some (todo_body ''1'' ''A'' ''B'') \<rparr> None [])) = ''200''
   \<and> response_json (reply (handle getSingleTodo \<lparr> todoId = ''1'', body = None \<rparr> None
        (stored (handle createTodo \<lparr> todoId = [], body = Some (todo_body ''1'' ''A'' ''B'') \<rparr> None []))))
      = Some (JObj [(''id'', JStr ''1''), (''title'', JStr ''A''), (''description'', JStr ''B'')])"
proof -
  have p: "plain ''1''" "plain ''A''" "plain ''B''"
    by (simp_all add: plain_def)
  have c: "http_status (reply (handle createTodo
      \<lparr> todoId = [], body = Some (todo_body ''1'' ''A'' ''B'') \<rparr> None [])) = ''200''"
    using p by (simp add: handle_createTodo accepts_todo_body input_path_todo_body)
  show ?thesis
    using p c round_trip [OF p c, where b = None]
    by (simp add: Let_def todo_body_def)
qed

text \<open>
  The claim as first stated ranges over all well-formed strings. A title with an
  escaped quote is one: the create is answered with 200, the store reads the escape and
  keeps the quote, and the GET, answered with 200, prints the quote as it is, so its
  body is not JSON, let alone the object of the three members.
\<close>

theorem round_trip_counterexample:
  \<open>http_status (reply (handle createTodo
      \<lparr> todoId = [], body = Some (todo_body ''1'' [CHR ''a'', backslash, dquote, CHR ''b''] ''B'') \<rparr>
      None [])) = ''200''
   \<and> http_status (reply (handle getSingleTodo \<lparr> todoId = ''1'', body = None \<rparr> None
        (stored (handle createTodo
          \<lparr> todoId = [], body = Some (todo_body ''1'' [CHR ''a'', backslash, dquote, CHR ''b''] ''B'') \<rparr>
          None [])))) = ''200''
   \<and> response_json (reply (handle getSingleTodo \<lparr> todoId = ''1'', body = None \<rparr> None
        (stored (handle createTodo
          \<lparr> todoId = [], body = Some (todo_body ''1'' [CHR ''a'', backslash, dquote, CHR ''b''] ''B'') \<rparr>
          None [])))) = None\<close>
proof -
  have c: \<open>handle createTodo
      \<lparr> todoId = [], body = Some (todo_body ''1'' [CHR ''a'', backslash, dquote, CHR ''b''] ''B'') \<rparr>
      None [] =
    \<lparr> reply = Responded ''200'' created_message,
      calls = [(PutItem, createTodo_requestTemplate
        \<lparr> todoId = [], body = Some (todo_body ''1'' [CHR ''a'', backslash, dquote, CHR ''b''] ''B'') \<rparr>)],
      stored = [(''1'', [(''id'', ''1''), (''title'', ''a"b''), (''description'', ''B'')])] \<rparr>\<close>
    by (simp add: handle_def accepts_todo_body method_fields store_call_def put_item_def
        createTodo_requestTemplate_def input_path_todo_body store_reader_defs map_response_ok)
  have g: \<open>reply (handle getSingleTodo \<lparr> todoId = ''1'', body = None \<rparr> None
      [(''1'', [(''id'', ''1''), (''title'', ''a"b''), (''description'', ''B'')])]) =
    Responded ''200'' (snd (getSingleTodo_responseTemplate
      (JObj [(''Item'', item_json [(''id'', ''1''), (''title'', ''a"b''), (''description'', ''B'')])])))\<close>
    by (simp add: handle_getSingleTodo input_params_def plain_def)
  have p: \<open>parse_json (snd (getSingleTodo_responseTemplate
      (JObj [(''Item'', item_json [(''id'', ''1''), (''title'', ''a"b''), (''description'', ''B'')])])))
      = None\<close>
    by (simp add: getSingleTodo_responseTemplate_def item_json_def attr_json_def parse_json_def
        is_ws_def)
  show ?thesis
    by (simp add: c g p)
qed

lemma parse_load_error:
  "parse_json load_error = Some (JObj [(''error'', JStr ''There was an error loading the To-Do objects.'')])"
  "parse_json (snd (getSingleTodo_responseTemplate (JObj []))) =
     Some (JObj [(''error'', JStr ''There was an error loading the To-Do objects.'')])"
  by (simp_all add: load_error_def getSingleTodo_responseTemplate_def parse_json_def is_ws_def)

lemma get_item_cases:
  "get_item payload tbl = (store_error ''ValidationException'', tbl)
   \<or> get_item payload tbl = ((''200'', JObj []), tbl)
   \<or> (\<exists>k it. map_of tbl k = Some it \<and>
         get_item payload tbl = ((''200'', JObj [(''Item'', item_json it)]), tbl))"
  by (auto simp add: get_item_def split: option.splits)

lemma map_response_getSingleTodo_no_item:
  "member j ''Item'' = None \<Longrightarrow> http_status (map_response getSingleTodo (st, j)) \<noteq> ''200''"
  by (simp add: map_response_def getSingleTodo_def select_response_def fixed_response_def
      getSingleTodo_responseTemplate_def)

lemma handle_getSingleTodo_fault:
  "http_status (reply (handle getSingleTodo req (Some st) tbl)) \<noteq> ''200''"
  by (simp add: handle_def accepts_unvalidated method_fields store_call_def Let_def
      map_response_getSingleTodo_no_item)

section \<open>Reading an id that has no item\<close>

text \<open>
  Claim C3, as amended. A GET of a plain id (no double quote, no backslash, no control
  character) that has no stored item is answered with 400 and the fixed error object,
  and the table is left as it was; so is, whatever the id, every GET to which the store
  returns no item. No GET at all is answered with 200 and an empty object: whenever the
  status is 200, the body is the rendering of an item the table holds.
\<close>

theorem missing_item_get:
  fixes req :: request and tbl :: table and fault :: "string option"
  shows "(plain (todoId req) \<and> map_of tbl (todoId req) = None \<or>
          member (snd (store_answer getSingleTodo req tbl)) ''Item'' = None \<longrightarrow>
            http_status (reply (handle getSingleTodo req None tbl)) = ''400''
            \<and> response_json (reply (handle getSingleTodo req None tbl)) =
                Some (JObj [(''error'', JStr ''There was an error loading the To-Do objects.'')])
            \<and> stored (handle getSingleTodo req None tbl) = tbl)
       \<and> (http_status (reply (handle getSingleTodo req fault tbl)) = ''200'' \<longrightarrow>
            (\<exists>k it. map_of tbl k = Some it \<and>
               reply (handle getSingleTodo req fault tbl) =
                 Responded ''200''
                   (snd (getSingleTodo_responseTemplate (JObj [(''Item'', item_json it)])))))"
proof -
  let ?h = "handle getSingleTodo req None tbl"
  let ?err = "Some (JObj [(''error'', JStr ''There was an error loading the To-Do objects.'')])"
  have ans: "store_answer getSingleTodo req tbl = fst (get_item (getSingleTodo_requestTemplate req) tbl)"
    by (simp add: store_answer_def method_fields store_call_def)
  have st: "stored ?h = tbl"
    using get_item_cases [of "getSingleTodo_requestTemplate req" tbl]
    by (auto simp add: handle_def accepts_unvalidated method_fields store_call_def)
  have noitem: "http_status (reply ?h) = ''400'' \<and> response_json (reply ?h) = ?err"
    if "member (snd (store_answer getSingleTodo req tbl)) ''Item'' = None"
    using that get_item_cases [of "getSingleTodo_requestTemplate req" tbl]
    by (auto simp add: reply_handle accepts_unvalidated ans map_response_error map_response_ok
        parse_load_error)
  have absent: "member (snd (store_answer getSingleTodo req tbl)) ''Item'' = None"
    if "plain (todoId req)" and "map_of tbl (todoId req) = None"
    using that
    by (simp add: ans get_item_def decode_getSingleTodo input_params_def store_error_def)
  have ok: "\<exists>k it. map_of tbl k = Some it \<and>
      reply (handle getSingleTodo req fault tbl) =
        Responded ''200'' (snd (getSingleTodo_responseTemplate (JObj [(''Item'', item_json it)])))"
    if h: "http_status (reply (handle getSingleTodo req fault tbl)) = ''200''"
  proof (cases fault)
    case (Some st)
    with h handle_getSingleTodo_fault [of req st tbl] show ?thesis by simp
  next
    case None
    with h get_item_cases [of "getSingleTodo_requestTemplate req" tbl] show ?thesis
      by (fastforce simp add: reply_handle accepts_unvalidated ans map_response_error
          map_response_ok)
  qed
  have first: "plain (todoId req) \<and> map_of tbl (todoId req) = None \<or>
      member (snd (store_answer getSingleTodo req tbl)) ''Item'' = None \<longrightarrow>
      http_status (reply ?h) = ''400'' \<and> response_json (reply ?h) = ?err \<and> stored ?h = tbl"
    using absent noitem st by auto
  have second: "http_status (reply (handle getSingleTodo req fault tbl)) = ''200'' \<longrightarrow>
      (\<exists>k it. map_of tbl k = Some it \<and>
        reply (handle getSingleTodo req fault tbl) =
          Responded ''200'' (snd (getSingleTodo_responseTemplate (JObj [(''Item'', item_json it)]))))"
    using ok by (rule impI)
  from first second show ?thesis
    by (rule conjI)
qed

theorem missing_item_get_witness:
  "plain ''doesnotexist''
   \<and> map_of [(''1'', todo_item ''1'' ''A'' ''B'')] ''doesnotexist'' = None
   \<and> http_status (reply (handle getSingleTodo \<lparr> todoId = ''doesnotexist'', body = None \<rparr> None
        [(''1'', todo_item ''1'' ''A'' ''B'')])) = ''400''
   \<and> response_json (reply (handle getSingleTodo \<lparr> todoId = ''doesnotexist'', body = None \<rparr> None
        [(''1'', todo_item ''1'' ''A'' ''B'')])) =
       Some (JObj [(''error'', JStr ''There was an error loading the To-Do objects.'')])
   \<and> http_status (reply (handle getSingleTodo \<lparr> todoId = ''1'', body = None \<rparr> None
        [(''1'', todo_item ''1'' ''A'' ''B'')])) = ''200''
   \<and> (\<exists>k it. map_of [(''1'', todo_item ''1'' ''A'' ''B'')] k = Some it \<and>
         reply (handle getSingleTodo \<lparr> todoId = ''1'', body = None \<rparr> None
           [(''1'', todo_item ''1'' ''A'' ''B'')]) =
         Responded ''200'' (snd (getSingleTodo_responseTemplate (JObj [(''Item'', item_json it)]))))"
proof -
  have p: "plain ''doesnotexist''" "plain ''1''"
    by (simp_all add: plain_def)
  have ok: "http_status (reply (handle getSingleTodo \<lparr> todoId = ''1'', body = None \<rparr> None
        [(''1'', todo_item ''1'' ''A'' ''B'')])) = ''200''"
    using p by (simp add: handle_getSingleTodo input_params_def)
  show ?thesis
    using p ok
      missing_item_get [where req = "\<lparr> todoId = ''doesnotexist'', body = None \<rparr>"
        and tbl = "[(''1'', todo_item ''1'' ''A'' ''B'')]" and fault = None]
      missing_item_get [where req = "\<lparr> todoId = ''1'', body = None \<rparr>"
        and tbl = "[(''1'', todo_item ''1'' ''A'' ''B'')]" and fault = None]
    by simp
qed

text \<open>
  The claim as first stated ranges over every id. The path id is printed into the key
  without escaping, and the store reads escapes: the id \<^verbatim>\<open>\u0031\<close>, of six
  characters, has no stored item, yet its GET is answered with 200 and the item of the
  id \<^verbatim>\<open>1\<close>.
\<close>

theorem missing_item_get_counterexample:
  \<open>map_of [(''1'', todo_item ''1'' ''A'' ''B'')] (backslash # ''u0031'') = None
   \<and> http_status (reply (handle getSingleTodo \<lparr> todoId = backslash # ''u0031'', body = None \<rparr> None
        [(''1'', todo_item ''1'' ''A'' ''B'')])) = ''200''
   \<and> response_json (reply (handle getSingleTodo \<lparr> todoId = backslash # ''u0031'', body = None \<rparr> None
        [(''1'', todo_item ''1'' ''A'' ''B'')])) = Some (todo_body ''1'' ''A'' ''B'')\<close>
proof -
  have d: \<open>decode_Key (getSingleTodo_requestTemplate \<lparr> todoId = backslash # ''u0031'', body = None \<rparr>)
      = Some (''1'', None)\<close>
    by code_simp
  have p: "plain ''1''" "plain ''A''" "plain ''B''"
    by (simp_all add: plain_def)
  show ?thesis
    using p
    by (simp add: handle_def accepts_unvalidated method_fields store_call_def get_item_def d
        map_response_ok parse_todo_object)
qed

lemma put_item_cases:
  "(\<exists>a. put_item payload tbl = (a, tbl))
   \<or> (\<exists>k it. key_of it = Some k \<and> put_item payload tbl = ((''200'', JObj []), AList.update k it tbl))"
  by (auto simp add: put_item_def split: option.splits)

lemma key_of_id: "key_of it = Some k \<Longrightarrow> map_of it ''id'' = Some k"
  by (auto simp add: key_of_def split: option.splits if_splits)

lemma keyed_update:
  "keyed tbl \<Longrightarrow> map_of it ''id'' = Some k \<Longrightarrow> keyed (AList.update k it tbl)"
  by (induction tbl) (auto simp add: keyed_def)

lemma keyed_map_of: "keyed tbl \<Longrightarrow> map_of tbl k = Some it \<Longrightarrow> map_of it ''id'' = Some k"
  by (induction tbl) (auto simp add: keyed_def split: if_splits)

lemma stored_update_cases:
  "stored (handle updateSingleTodo req fault tbl) = tbl
   \<or> (\<exists>k it. map_of it ''id'' = Some k \<and>
         stored (handle updateSingleTodo req fault tbl) = AList.update k it tbl)"
proof (cases "accepts updateSingleTodo req \<and> fault = None")
  case True
  then show ?thesis
    using put_item_cases [of "updateSingleTodo_requestTemplate req" tbl]
    by (fastforce simp add: handle_def method_fields store_call_def Let_def dest: key_of_id)
next
  case False
  then show ?thesis
    by (auto simp add: handle_def method_fields store_call_def Let_def)
qed

lemma updateSingleTodo_same_payload:
  assumes "todoId req = todoId req'"
    and "input_path req ''title'' = input_path req' ''title''"
    and "input_path req ''description'' = input_path req' ''description''"
  shows "updateSingleTodo_requestTemplate req = updateSingleTodo_requestTemplate req'"
  using assms by (simp add: updateSingleTodo_requestTemplate_def input_params_def)

section \<open>The id of a stored todo\<close>

text \<open>
  Claim C4, as amended. Under PUT \<open>/v1/todo/{id}\<close> the id of a stored todo does not
  change: whatever the request, every item of a table keyed by id is still there
  afterwards with the same \<open>id\<close>, and the table is still keyed by id. The update
  never reads the \<open>id\<close> of the body: two accepted requests with the same path id,
  title and description have the same outcome, whatever else their bodies hold. For a
  path id, a title and a description that are plain (no double quote, no backslash, no
  control character) the write is keyed on the path id only: the one store call is the
  conditional put of the item whose \<open>id\<close> is the path id, and the table afterwards is
  the table with that item put at the path id when the path id is a key, and the table
  as it was when it is not.
\<close>

theorem id_immutable:
  fixes req req' :: request and tbl :: table and fault :: "string option"
    and k p b t d :: string and it :: item
  shows "(keyed tbl \<and> map_of tbl k = Some it \<longrightarrow>
            (\<exists>it'. map_of (stored (handle updateSingleTodo req fault tbl)) k = Some it'
               \<and> map_of it' ''id'' = map_of it ''id'')
            \<and> keyed (stored (handle updateSingleTodo req fault tbl)))
       \<and> (accepts updateSingleTodo req \<and> accepts updateSingleTodo req'
            \<and> todoId req = todoId req'
            \<and> input_path req ''title'' = input_path req' ''title''
            \<and> input_path req ''description'' = input_path req' ''description'' \<longrightarrow>
            handle updateSingleTodo req fault tbl = handle updateSingleTodo req' fault tbl)
       \<and> (plain p \<and> plain t \<and> plain d \<longrightarrow>
            (\<exists>payload.
               calls (handle updateSingleTodo \<lparr> todoId = p, body = Some (todo_body b t d) \<rparr> fault tbl)
                 = [(PutItem, payload)]
               \<and> decode_PutItem payload = Some (todo_item p t d, Some attribute_exists))
            \<and> stored (handle updateSingleTodo \<lparr> todoId = p, body = Some (todo_body b t d) \<rparr> None tbl)
                = (if p \<noteq> [] \<and> map_of tbl p \<noteq> None
                   then AList.update p (todo_item p t d) tbl else tbl))"
proof -
  let ?h = "handle updateSingleTodo req fault tbl"
  let ?u = "\<lparr> todoId = p, body = Some (todo_body b t d) \<rparr>"
  have one: "(\<exists>it'. map_of (stored ?h) k = Some it' \<and> map_of it' ''id'' = map_of it ''id'')
      \<and> keyed (stored ?h)"
    if kt: "keyed tbl" and m: "map_of tbl k = Some it"
  proof -
    have idk: "map_of it ''id'' = Some k"
      using kt m by (rule keyed_map_of)
    from stored_update_cases [of req fault tbl] show ?thesis
    proof
      assume "stored ?h = tbl"
      then show ?thesis using kt m by simp
    next
      assume "\<exists>k' it'. map_of it' ''id'' = Some k' \<and> stored ?h = AList.update k' it' tbl"
      then obtain k' it' where n: "map_of it' ''id'' = Some k'"
        and s: "stored ?h = AList.update k' it' tbl"
        by blast
      show ?thesis
        using kt m n idk by (auto simp add: s update_conv' keyed_update)
    qed
  qed
  have two: "handle updateSingleTodo req fault tbl = handle updateSingleTodo req' fault tbl"
    if "accepts updateSingleTodo req" and "accepts updateSingleTodo req'"
      and "todoId req = todoId req'"
      and "input_path req ''title'' = input_path req' ''title''"
      and "input_path req ''description'' = input_path req' ''description''"
    using that updateSingleTodo_same_payload [of req req']
    by (simp add: handle_def method_fields)
  have three: "(\<exists>payload. calls (handle updateSingleTodo ?u fault tbl) = [(PutItem, payload)]
        \<and> decode_PutItem payload = Some (todo_item p t d, Some attribute_exists))
      \<and> stored (handle updateSingleTodo ?u None tbl)
          = (if p \<noteq> [] \<and> map_of tbl p \<noteq> None
             then AList.update p (todo_item p t d) tbl else tbl)"
    if pl: "plain p" "plain t" "plain d"
  proof -
    have "\<exists>payload. calls (handle updateSingleTodo ?u fault tbl) = [(PutItem, payload)]
        \<and> decode_PutItem payload = Some (todo_item p t d, Some attribute_exists)"
      using pl decode_updateSingleTodo [of ?u]
      by (simp add: handle_def accepts_todo_body method_fields Let_def input_path_todo_body
          input_params_def)
    moreover have "stored (handle updateSingleTodo ?u None tbl)
        = (if p \<noteq> [] \<and> map_of tbl p \<noteq> None
           then AList.update p (todo_item p t d) tbl else tbl)"
      using pl handle_updateSingleTodo [of ?u tbl]
      by (simp add: accepts_todo_body input_path_todo_body input_params_def)
    ultimately show ?thesis
      by (rule conjI)
  qed
  have c1: "keyed tbl \<and> map_of tbl k = Some it \<longrightarrow>
      (\<exists>it'. map_of (stored ?h) k = Some it' \<and> map_of it' ''id'' = map_of it ''id'')
      \<and> keyed (stored ?h)"
    using one by (auto simp only:)
  have c2: "accepts updateSingleTodo req \<and> accepts updateSingleTodo req'
      \<and> todoId req = todoId req'
      \<and> input_path req ''title'' = input_path req' ''title''
      \<and> input_path req ''description'' = input_path req' ''description'' \<longrightarrow>
      handle updateSingleTodo req fault tbl = handle updateSingleTodo req' fault tbl"
    using two by (auto simp only:)
  have c3: "plain p \<and> plain t \<and> plain d \<longrightarrow>
      (\<exists>payload. calls (handle updateSingleTodo ?u fault tbl) = [(PutItem, payload)]
         \<and> decode_PutItem payload = Some (todo_item p t d, Some attribute_exists))
      \<and> stored (handle updateSingleTodo ?u None tbl)
          = (if p \<noteq> [] \<and> map_of tbl p \<noteq> None
             then AList.update p (todo_item p t d) tbl else tbl)"
    using three by (auto simp only:)
  from c1 c2 c3 show ?thesis
    by (intro conjI)
qed

theorem id_immutable_witness:
  "keyed [(''1'', todo_item ''1'' ''X'' ''Y'')]
   \<and> map_of [(''1'', todo_item ''1'' ''X'' ''Y'')] ''1'' = Some (todo_item ''1'' ''X'' ''Y'')
   \<and> (\<exists>it'. map_of (stored (handle updateSingleTodo
              \<lparr> todoId = ''1'', body = Some (todo_body ''2'' ''A'' ''B'') \<rparr> None
              [(''1'', todo_item ''1'' ''X'' ''Y'')])) ''1'' = Some it'
          \<and> map_of it' ''id'' = Some ''1'')
   \<and> keyed (stored (handle updateSingleTodo
         \<lparr> todoId = ''1'', body = Some (todo_body ''2'' ''A'' ''B'') \<rparr> None
         [(''1'', todo_item ''1'' ''X'' ''Y'')]))
   \<and> handle updateSingleTodo \<lparr> todoId = ''1'', body = Some (todo_body ''2'' ''A'' ''B'') \<rparr> None
         [(''1'', todo_item ''1'' ''X'' ''Y'')] =
       handle updateSingleTodo \<lparr> todoId = ''1'', body = Some (todo_body ''1'' ''A'' ''B'') \<rparr> None
         [(''1'', todo_item ''1'' ''X'' ''Y'')]
   \<and> (\<exists>payload.
         calls (handle updateSingleTodo \<lparr> todoId = ''1'', body = Some (todo_body ''2'' ''A'' ''B'') \<rparr>
           None [(''1'', todo_item ''1'' ''X'' ''Y'')]) = [(PutItem, payload)]
         \<and> decode_PutItem payload = Some (todo_item ''1'' ''A'' ''B'', Some attribute_exists))
   \<and> stored (handle updateSingleTodo \<lparr> todoId = ''1'', body = Some (todo_body ''2'' ''A'' ''B'') \<rparr>
         None [(''1'', todo_item ''1'' ''X'' ''Y'')]) = [(''1'', todo_item ''1'' ''A'' ''B'')]"
proof -
  note w = id_immutable [where tbl = "[(''1'', todo_item ''1'' ''X'' ''Y'')]" and k = "''1''"
      and it = "todo_item ''1'' ''X'' ''Y''" and fault = None
      and req = "\<lparr> todoId = ''1'', body = Some (todo_body ''2'' ''A'' ''B'') \<rparr>"
      and req' = "\<lparr> todoId = ''1'', body = Some (todo_body ''1'' ''A'' ''B'') \<rparr>"
      and p = "''1''" and b = "''2''" and t = "''A''" and d = "''B''"]
  have pre: "keyed [(''1'', todo_item ''1'' ''X'' ''Y'')]"
    "map_of [(''1'', todo_item ''1'' ''X'' ''Y'')] ''1'' = Some (todo_item ''1'' ''X'' ''Y'')"
    by (simp_all add: keyed_def todo_item_def)
  have c1: "(\<exists>it'. map_of (stored (handle updateSingleTodo
              \<lparr> todoId = ''1'', body = Some (todo_body ''2'' ''A'' ''B'') \<rparr> None
              [(''1'', todo_item ''1'' ''X'' ''Y'')])) ''1'' = Some it'
          \<and> map_of it' ''id'' = Some ''1'')
     \<and> keyed (stored (handle updateSingleTodo
         \<lparr> todoId = ''1'', body = Some (todo_body ''2'' ''A'' ''B'') \<rparr> None
         [(''1'', todo_item ''1'' ''X'' ''Y'')]))"
    using pre w [THEN conjunct1] by (simp add: todo_item_def)
  have c2: "handle updateSingleTodo \<lparr> todoId = ''1'', body = Some (todo_body ''2'' ''A'' ''B'') \<rparr> None
         [(''1'', todo_item ''1'' ''X'' ''Y'')] =
       handle updateSingleTodo \<lparr> todoId = ''1'', body = Some (todo_body ''1'' ''A'' ''B'') \<rparr> None
         [(''1'', todo_item ''1'' ''X'' ''Y'')]"
    using w [THEN conjunct2, THEN conjunct1]
    by (simp add: accepts_todo_body input_path_todo_body)
  have c3: "(\<exists>payload.
         calls (handle updateSingleTodo \<lparr> todoId = ''1'', body = Some (todo_body ''2'' ''A'' ''B'') \<rparr>
           None [(''1'', todo_item ''1'' ''X'' ''Y'')]) = [(PutItem, payload)]
         \<and> decode_PutItem payload = Some (todo_item ''1'' ''A'' ''B'', Some attribute_exists))
     \<and> stored (handle updateSingleTodo \<lparr> todoId = ''1'', body = Some (todo_body ''2'' ''A'' ''B'') \<rparr>
         None [(''1'', todo_item ''1'' ''X'' ''Y'')]) = [(''1'', todo_item ''1'' ''A'' ''B'')]"
    using w [THEN conjunct2, THEN conjunct2] by (simp add: plain_def)
  from pre c1 c2 c3 show ?thesis
    by (intro conjI) (erule conjunct1 conjunct2 | assumption)+
qed

text \<open>
  The claim as first stated has every PUT key its write on the path id, whatever the
  body. A title that closes its string and opens a second \<open>id\<close> passes validation;
  the store reads the last \<open>id\<close> of the item, and the PUT of the path id \<open>1\<close>
  overwrites the todo of the id \<open>2\<close>.
\<close>

theorem id_immutable_counterexample:
  \<open>accepts updateSingleTodo
     \<lparr> todoId = ''1'', body = Some (todo_body ''1'' ''x"}, "id": {"S": "2'' ''B'') \<rparr>
   \<and> handle updateSingleTodo
       \<lparr> todoId = ''1'', body = Some (todo_body ''1'' ''x"}, "id": {"S": "2'' ''B'') \<rparr> None
       [(''1'', todo_item ''1'' ''A1'' ''B1''), (''2'', todo_item ''2'' ''A2'' ''B2'')] =
     \<lparr> reply = Responded ''200'' updated_message,
       calls = [(PutItem, updateSingleTodo_requestTemplate
         \<lparr> todoId = ''1'', body = Some (todo_body ''1'' ''x"}, "id": {"S": "2'' ''B'') \<rparr>)],
       stored = [(''1'', todo_item ''1'' ''A1'' ''B1''),
                 (''2'', [(''title'', ''x''), (''id'', ''2''), (''description'', ''B'')])] \<rparr>\<close>
proof -
  have d: \<open>decode_PutItem (updateSingleTodo_requestTemplate
      \<lparr> todoId = ''1'', body = Some (todo_body ''1'' ''x"}, "id": {"S": "2'' ''B'') \<rparr>) =
    Some ([(''title'', ''x''), (''id'', ''2''), (''description'', ''B'')], Some attribute_exists)\<close>
    by (simp add: updateSingleTodo_requestTemplate_def input_path_todo_body input_params_def
        store_reader_defs)
  show ?thesis
    by (simp add: accepts_todo_body handle_def method_fields store_call_def put_item_def d
        key_of_def condition_holds_def map_response_ok todo_item_def)
qed

lemma has_type_STRING: "has_type STRING v \<longleftrightarrow> (\<exists>s. v = JStr s)"
  by (cases v) simp_all

lemma validates_todoModel:
  "validates todoModel j \<longleftrightarrow>
     (\<exists>i t d. str_member j ''id'' = Some i \<and> str_member j ''title'' = Some t
        \<and> str_member j ''description'' = Some d)"
  by (cases j)
     (auto simp add: validates_def todoModel_def has_type_STRING split: option.splits json.splits)

lemma handle_rejected:
  "\<not> accepts m req \<Longrightarrow> handle m req fault tbl = \<lparr> reply = Rejected, calls = [], stored = tbl \<rparr>"
  by (simp add: handle_def)

lemma handle_dispatched:
  "accepts m req \<Longrightarrow> calls (handle m req fault tbl) = [(action m, requestTemplate m req)]"
  by (simp add: handle_def Let_def)

section \<open>What the request validator asks of a body\<close>

text \<open>
  Claim C5, as amended. PUT \<open>/v1/todo/{id}\<close> validates its body against the same
  model as the create: the body is accepted exactly when it is an object whose
  \<open>id\<close>, \<open>title\<close> and \<open>description\<close> are strings. An accepted request is
  dispatched to the store as one put, whose payload is rendered from the path id, the
  title and the description only: the \<open>id\<close> of the body is validated but not used,
  so accepted requests that agree on the path id, the title and the description send
  the same payload; and when these three are plain (no double quote, no backslash, no
  control character) the payload is the put of the item of the path id, the title and
  the description, under the condition that the key exists. A request that is not
  accepted (a body without \<open>id\<close> among them) is rejected with 400, with no store
  call and no change of the table.
\<close>

theorem update_body_validation:
  fixes req req' :: request and tbl :: table and fault :: "string option"
  shows "(accepts updateSingleTodo req \<longleftrightarrow>
            (\<exists>j i t d. body req = Some j \<and> str_member j ''id'' = Some i
               \<and> str_member j ''title'' = Some t \<and> str_member j ''description'' = Some d))
       \<and> (accepts updateSingleTodo req \<longrightarrow>
            calls (handle updateSingleTodo req fault tbl) =
              [(PutItem, updateSingleTodo_requestTemplate req)])
       \<and> (accepts updateSingleTodo req \<and> accepts updateSingleTodo req'
            \<and> todoId req = todoId req'
            \<and> input_path req ''title'' = input_path req' ''title''
            \<and> input_path req ''description'' = input_path req' ''description'' \<longrightarrow>
            calls (handle updateSingleTodo req fault tbl) =
              calls (handle updateSingleTodo req' fault tbl))
       \<and> (accepts updateSingleTodo req \<and> plain (todoId req)
            \<and> plain (input_path req ''title'') \<and> plain (input_path req ''description'') \<longrightarrow>
            decode_PutItem (updateSingleTodo_requestTemplate req) =
              Some (todo_item (todoId req) (input_path req ''title'')
                      (input_path req ''description''), Some attribute_exists))
       \<and> (\<not> accepts updateSingleTodo req \<longrightarrow>
            handle updateSingleTodo req fault tbl = \<lparr> reply = Rejected, calls = [], stored = tbl \<rparr>
            \<and> http_status (reply (handle updateSingleTodo req fault tbl)) = ''400'')"
proof -
  have a: "accepts updateSingleTodo req \<longleftrightarrow>
      (\<exists>j i t d. body req = Some j \<and> str_member j ''id'' = Some i
         \<and> str_member j ''title'' = Some t \<and> str_member j ''description'' = Some d)"
    by (cases "body req") (simp_all add: accepts_def method_fields valid_body_def validates_todoModel)
  have b: "accepts updateSingleTodo req \<longrightarrow>
      calls (handle updateSingleTodo req fault tbl) =
        [(PutItem, updateSingleTodo_requestTemplate req)]"
    using handle_dispatched [of updateSingleTodo req fault tbl] by (simp add: method_fields)
  have s: "accepts updateSingleTodo req \<and> accepts updateSingleTodo req'
      \<and> todoId req = todoId req'
      \<and> input_path req ''title'' = input_path req' ''title''
      \<and> input_path req ''description'' = input_path req' ''description'' \<longrightarrow>
      calls (handle updateSingleTodo req fault tbl) =
        calls (handle updateSingleTodo req' fault tbl)"
    using handle_dispatched [of updateSingleTodo req fault tbl]
      handle_dispatched [of updateSingleTodo req' fault tbl]
      updateSingleTodo_same_payload [of req req']
    by (simp add: method_fields)
  have d: "accepts updateSingleTodo req \<and> plain (todoId req)
      \<and> plain (input_path req ''title'') \<and> plain (input_path req ''description'') \<longrightarrow>
      decode_PutItem (updateSingleTodo_requestTemplate req) =
        Some (todo_item (todoId req) (input_path req ''title'')
                (input_path req ''description''), Some attribute_exists)"
    using decode_updateSingleTodo [of req] by (simp add: input_params_def)
  have c: "\<not> accepts updateSingleTodo req \<longrightarrow>
      handle updateSingleTodo req fault tbl = \<lparr> reply = Rejected, calls = [], stored = tbl \<rparr>
      \<and> http_status (reply (handle updateSingleTodo req fault tbl)) = ''400''"
    using handle_rejected [of updateSingleTodo req fault tbl] by simp
  from a b s d c show ?thesis
    by (intro conjI)
qed

theorem update_body_validation_witness:
  "accepts updateSingleTodo \<lparr> todoId = ''1'', body = Some (todo_body ''7'' ''A'' ''B'') \<rparr>
   \<and> calls (handle updateSingleTodo \<lparr> todoId = ''1'', body = Some (todo_body ''7'' ''A'' ''B'') \<rparr> None []) =
       [(PutItem, updateSingleTodo_requestTemplate
           \<lparr> todoId = ''1'', body = Some (todo_body ''7'' ''A'' ''B'') \<rparr>)]
   \<and> calls (handle updateSingleTodo \<lparr> todoId = ''1'', body = Some (todo_body ''7'' ''A'' ''B'') \<rparr> None []) =
       calls (handle updateSingleTodo \<lparr> todoId = ''1'', body = Some (todo_body ''1'' ''A'' ''B'') \<rparr> None [])
   \<and> decode_PutItem (updateSingleTodo_requestTemplate
         \<lparr> todoId = ''1'', body = Some (todo_body ''7'' ''A'' ''B'') \<rparr>) =
       Some (todo_item ''1'' ''A'' ''B'', Some attribute_exists)
   \<and> \<not> accepts updateSingleTodo
         \<lparr> todoId = ''1'', body = Some (JObj [(''title'', JStr ''A''), (''description'', JStr ''B'')]) \<rparr>
   \<and> handle updateSingleTodo
         \<lparr> todoId = ''1'', body = Some (JObj [(''title'', JStr ''A''), (''description'', JStr ''B'')]) \<rparr>
         None [] = \<lparr> reply = Rejected, calls = [], stored = [] \<rparr>"
proof -
  let ?r7 = "\<lparr> todoId = ''1'', body = Some (todo_body ''7'' ''A'' ''B'') \<rparr>"
  let ?r1 = "\<lparr> todoId = ''1'', body = Some (todo_body ''1'' ''A'' ''B'') \<rparr>"
  let ?r0 = "\<lparr> todoId = ''1'',
    body = Some (JObj [(''title'', JStr ''A''), (''description'', JStr ''B'')]) \<rparr>"
  note w1 = update_body_validation [where req = ?r7 and req' = ?r1 and fault = None and tbl = "[]"]
  note w2 = update_body_validation [where req = ?r0 and req' = ?r1 and fault = None and tbl = "[]"]
  have a7: "accepts updateSingleTodo ?r7"
    using w1 [THEN conjunct1] by (simp add: todo_body_def)
  have a1: "accepts updateSingleTodo ?r1"
    by (rule accepts_todo_body)
  have a0: "\<not> accepts updateSingleTodo ?r0"
    using w2 [THEN conjunct1] by simp
  have c: "calls (handle updateSingleTodo ?r7 None []) =
      [(PutItem, updateSingleTodo_requestTemplate ?r7)]"
    using a7 w1 [THEN conjunct2, THEN conjunct1] by simp
  have s: "calls (handle updateSingleTodo ?r7 None []) = calls (handle updateSingleTodo ?r1 None [])"
    using a7 a1 w1 [THEN conjunct2, THEN conjunct2, THEN conjunct1]
    by (simp add: input_path_todo_body)
  have d: "decode_PutItem (updateSingleTodo_requestTemplate ?r7) =
      Some (todo_item ''1'' ''A'' ''B'', Some attribute_exists)"
    using a7 w1 [THEN conjunct2, THEN conjunct2, THEN conjunct2, THEN conjunct1]
    by (simp add: input_path_todo_body plain_def)
  have r: "handle updateSingleTodo ?r0 None [] = \<lparr> reply = Rejected, calls = [], stored = [] \<rparr>"
    using a0 w2 [THEN conjunct2, THEN conjunct2, THEN conjunct2, THEN conjunct2] by simp
  from a7 c s d a0 r show ?thesis
    by (intro conjI)
qed

text \<open>
  The claim as first stated takes title and description to be enough. A body with
  these two and no \<open>id\<close> is rejected by the validator, with 400 and without a store
  call, even when the item of the path id exists.
\<close>

theorem update_body_validation_counterexample:
  "handle updateSingleTodo
     \<lparr> todoId = ''1'', body = Some (JObj [(''title'', JStr ''A''), (''description'', JStr ''B'')]) \<rparr>
     None [(''1'', todo_item ''1'' ''X'' ''Y'')] =
   \<lparr> reply = Rejected, calls = [], stored = [(''1'', todo_item ''1'' ''X'' ''Y'')] \<rparr>
   \<and> http_status Rejected = ''400''"
  by (simp add: handle_def accepts_def method_fields valid_body_def validates_def todoModel_def)

section \<open>Validation before the store\<close>

text \<open>
  Claim C6, as amended. A create request whose body is absent, is not an object, or
  lacks one of \<open>id\<close>, \<open>title\<close>, \<open>description\<close> or has it with a value that is not
  a string, is rejected with 400 before any store call: no call is made and the table
  is unchanged, whatever the store would have answered. A body whose three members are
  strings passes validation, the empty string included, and is dispatched to the store.
\<close>

theorem create_validation:
  fixes req :: request and tbl :: table and fault :: "string option" and i t d p :: string
  shows "(body req = None
          \<or> (\<exists>j k. body req = Some j \<and> k \<in> {''id'', ''title'', ''description''}
                \<and> str_member j k = None) \<longrightarrow>
            handle createTodo req fault tbl = \<lparr> reply = Rejected, calls = [], stored = tbl \<rparr>
            \<and> http_status (reply (handle createTodo req fault tbl)) = ''400'')
       \<and> accepts createTodo \<lparr> todoId = p, body = Some (todo_body i t d) \<rparr>
       \<and> calls (handle createTodo \<lparr> todoId = p, body = Some (todo_body i t d) \<rparr> fault tbl) =
           [(PutItem, createTodo_requestTemplate \<lparr> todoId = p, body = Some (todo_body i t d) \<rparr>)]"
proof -
  have a: "accepts createTodo req \<longleftrightarrow>
      (\<exists>j i t d. body req = Some j \<and> str_member j ''id'' = Some i
         \<and> str_member j ''title'' = Some t \<and> str_member j ''description'' = Some d)"
    by (cases "body req") (simp_all add: accepts_def method_fields valid_body_def validates_todoModel)
  have r: "\<not> accepts createTodo req"
    if "body req = None
        \<or> (\<exists>j k. body req = Some j \<and> k \<in> {''id'', ''title'', ''description''}
              \<and> str_member j k = None)"
    using that unfolding a by auto
  have first: "body req = None
      \<or> (\<exists>j k. body req = Some j \<and> k \<in> {''id'', ''title'', ''description''}
            \<and> str_member j k = None) \<longrightarrow>
      handle createTodo req fault tbl = \<lparr> reply = Rejected, calls = [], stored = tbl \<rparr>
      \<and> http_status (reply (handle createTodo req fault tbl)) = ''400''"
    using r handle_rejected [of createTodo req fault tbl] by auto
  have second: "accepts createTodo \<lparr> todoId = p, body = Some (todo_body i t d) \<rparr>"
    by (rule accepts_todo_body)
  have third: "calls (handle createTodo \<lparr> todoId = p, body = Some (todo_body i t d) \<rparr> fault tbl) =
      [(PutItem, createTodo_requestTemplate \<lparr> todoId = p, body = Some (todo_body i t d) \<rparr>)]"
    using handle_dispatched [OF second, of fault tbl] by (simp add: method_fields)
  from first second third show ?thesis
    by (intro conjI)
qed

theorem create_validation_witness:
  "str_member (JObj [(''id'', JStr ''1''), (''title'', JStr ''A'')]) ''description'' = None
   \<and> handle createTodo \<lparr> todoId = [], body = Some (JObj [(''id'', JStr ''1''), (''title'', JStr ''A'')]) \<rparr>
       None [] = \<lparr> reply = Rejected, calls = [], stored = [] \<rparr>
   \<and> str_member (JObj [(''id'', JNum 1), (''title'', JStr ''A''), (''description'', JStr ''B'')]) ''id'' = None
   \<and> handle createTodo
       \<lparr> todoId = [], body = Some (JObj [(''id'', JNum 1), (''title'', JStr ''A''), (''description'', JStr ''B'')]) \<rparr>
       None [] = \<lparr> reply = Rejected, calls = [], stored = [] \<rparr>"
proof -
  let ?r1 = "\<lparr> todoId = [], body = Some (JObj [(''id'', JStr ''1''), (''title'', JStr ''A'')]) \<rparr>"
  let ?r2 = "\<lparr> todoId = [],
    body = Some (JObj [(''id'', JNum 1), (''title'', JStr ''A''), (''description'', JStr ''B'')]) \<rparr>"
  have h1: "body ?r1 = None
      \<or> (\<exists>j k. body ?r1 = Some j \<and> k \<in> {''id'', ''title'', ''description''}
            \<and> str_member j k = None)"
    by (auto intro!: exI [of _ "''description''"])
  have h2: "body ?r2 = None
      \<or> (\<exists>j k. body ?r2 = Some j \<and> k \<in> {''id'', ''title'', ''description''}
            \<and> str_member j k = None)"
    by (auto intro!: exI [of _ "''id''"])
  show ?thesis
    using create_validation [where req = ?r1 and fault = None and tbl = "[]",
        THEN conjunct1, THEN mp, OF h1]
      create_validation [where req = ?r2 and fault = None and tbl = "[]",
        THEN conjunct1, THEN mp, OF h2]
    by simp
qed

text \<open>
  The claim as first stated also has a body with an empty string rejected before the
  store. The schema sets no minimal length: a create with an empty title passes
  validation, is sent to the store and is stored, with 200.
\<close>

theorem create_validation_counterexample:
  "accepts createTodo \<lparr> todoId = [], body = Some (todo_body ''1'' '''' ''B'') \<rparr>
   \<and> handle createTodo \<lparr> todoId = [], body = Some (todo_body ''1'' '''' ''B'') \<rparr> None [] =
       \<lparr> reply = Responded ''200'' created_message,
         calls = [(PutItem,
           createTodo_requestTemplate \<lparr> todoId = [], body = Some (todo_body ''1'' '''' ''B'') \<rparr>)],
         stored = [(''1'', todo_item ''1'' '''' ''B'')] \<rparr>"
  by (simp add: accepts_todo_body handle_createTodo input_path_todo_body plain_def)

lemma re_match_2xx_not_4xx: "re_match pattern_4xx st \<Longrightarrow> \<not> re_match pattern_2xx st"
  by (auto simp add: pattern_2xx_def pattern_4xx_def re_match_3)

lemma select_none:
  "\<not> re_match pattern_2xx st \<Longrightarrow> \<not> re_match pattern_4xx st \<Longrightarrow>
   select_response [\<lparr> statusCode = a, selectionPattern = pattern_2xx, responseTemplate = f \<rparr>,
     \<lparr> statusCode = b, selectionPattern = pattern_4xx, responseTemplate = g \<rparr>] st = None"
  by (simp add: select_response_def)

lemma map_response_unmapped:
  assumes "\<not> re_match pattern_2xx st" and "\<not> re_match pattern_4xx st"
  shows "map_response createTodo (st, j) = Unmapped st"
    "map_response updateSingleTodo (st, j) = Unmapped st"
    "map_response deleteSingleTodo (st, j) = Unmapped st"
    "map_response getAllTodos (st, j) = Unmapped st"
    "map_response getSingleTodo (st, j) = Unmapped st"
  using assms
  by (simp_all add: map_response_def createTodo_def updateSingleTodo_def deleteSingleTodo_def
      getAllTodos_def getSingleTodo_def select_none)

lemma handle_fault:
  "accepts m req \<Longrightarrow>
   handle m req (Some st) tbl =
     \<lparr> reply = map_response m (st, JObj [(''__type'', JStr ''Fault'')]),
       calls = [(action m, requestTemplate m req)], stored = tbl \<rparr>"
  by (simp add: handle_def store_call_def Let_def)

section \<open>Failures of the store\<close>

text \<open>
  Claim C7, as amended. For each of the five methods and every request that reaches the
  store (every request to the three methods without a validator, every accepted request
  to the create and the update): a store failure whose status code matches
  \<^verbatim>\<open>4\d{2}\<close> is answered with 400 and the error body of the method, and a rejection
  by the store itself (a payload it cannot use, a failed condition) likewise; the table is
  unchanged. A failure whose status code matches neither \<^verbatim>\<open>2\d{2}\<close> nor
  \<^verbatim>\<open>4\d{2}\<close> (a code of the 5xx family) selects no integration response: it is not
  answered with 400 and an error body of the method.
\<close>

theorem store_failure_mapping:
  fixes req :: request and tbl :: table and st e :: string
  shows "(re_match pattern_4xx st \<longrightarrow>
            reply (handle getAllTodos req (Some st) tbl) = Responded ''400'' load_error
            \<and> reply (handle getSingleTodo req (Some st) tbl) = Responded ''400'' load_error
            \<and> reply (handle deleteSingleTodo req (Some st) tbl) = Responded ''400'' delete_error
            \<and> (accepts createTodo req \<longrightarrow>
                 reply (handle createTodo req (Some st) tbl) = Responded ''400'' create_error)
            \<and> (accepts updateSingleTodo req \<longrightarrow>
                 reply (handle updateSingleTodo req (Some st) tbl) = Responded ''400'' update_error))
       \<and> (\<not> re_match pattern_2xx st \<and> \<not> re_match pattern_4xx st \<longrightarrow>
            reply (handle getAllTodos req (Some st) tbl) = Unmapped st
            \<and> reply (handle getSingleTodo req (Some st) tbl) = Unmapped st
            \<and> reply (handle deleteSingleTodo req (Some st) tbl) = Unmapped st
            \<and> (accepts createTodo req \<longrightarrow>
                 reply (handle createTodo req (Some st) tbl) = Unmapped st)
            \<and> (accepts updateSingleTodo req \<longrightarrow>
                 reply (handle updateSingleTodo req (Some st) tbl) = Unmapped st))
       \<and> stored (handle getAllTodos req (Some st) tbl) = tbl
       \<and> stored (handle createTodo req (Some st) tbl) = tbl
       \<and> stored (handle getSingleTodo req (Some st) tbl) = tbl
       \<and> stored (handle updateSingleTodo req (Some st) tbl) = tbl
       \<and> stored (handle deleteSingleTodo req (Some st) tbl) = tbl
       \<and> map_response getAllTodos (store_error e) = Responded ''400'' load_error
       \<and> map_response createTodo (store_error e) = Responded ''400'' create_error
       \<and> map_response getSingleTodo (store_error e) = Responded ''400'' load_error
       \<and> map_response updateSingleTodo (store_error e) = Responded ''400'' update_error
       \<and> map_response deleteSingleTodo (store_error e) = Responded ''400'' delete_error"
proof -
  have s: "stored (handle m req (Some st) tbl) = tbl" for m
    by (cases "accepts m req") (simp_all add: handle_fault handle_rejected)
  show ?thesis
    by (simp add: handle_fault accepts_unvalidated map_response_4xx map_response_unmapped
        map_response_error s)
qed

theorem store_failure_mapping_witness:
  "re_match pattern_4xx ''429''
   \<and> reply (handle deleteSingleTodo \<lparr> todoId = ''1'', body = None \<rparr> (Some ''429'') []) =
       Responded ''400'' delete_error
   \<and> accepts createTodo \<lparr> todoId = [], body = Some (todo_body ''1'' ''A'' ''B'') \<rparr>
   \<and> reply (handle createTodo \<lparr> todoId = [], body = Some (todo_body ''1'' ''A'' ''B'') \<rparr>
        (Some ''429'') []) = Responded ''400'' create_error
   \<and> \<not> re_match pattern_2xx ''503'' \<and> \<not> re_match pattern_4xx ''503''
   \<and> reply (handle getSingleTodo \<lparr> todoId = ''1'', body = None \<rparr> (Some ''503'') []) =
       Unmapped ''503''"
proof -
  have a: "accepts createTodo \<lparr> todoId = [], body = Some (todo_body ''1'' ''A'' ''B'') \<rparr>"
    by (rule accepts_todo_body)
  have m: "re_match pattern_4xx ''429''" "\<not> re_match pattern_2xx ''503''"
    "\<not> re_match pattern_4xx ''503''"
    by (simp_all add: pattern_2xx_def pattern_4xx_def is_digit_def)
  show ?thesis
    using a m
      store_failure_mapping [where req = "\<lparr> todoId = ''1'', body = None \<rparr>"
        and st = "''429''" and tbl = "[]"]
      store_failure_mapping [where req = "\<lparr> todoId = [], body = Some (todo_body ''1'' ''A'' ''B'') \<rparr>"
        and st = "''429''" and tbl = "[]"]
      store_failure_mapping [where req = "\<lparr> todoId = ''1'', body = None \<rparr>"
        and st = "''503''" and tbl = "[]"]
    by simp
qed

text \<open>
  The claim as first stated has every store failure, internal faults included, answered
  with 400, and no 5xx response at all. An internal fault of the store (status 500)
  matches neither selection pattern, so no integration response is selected: the reply is
  not the 400 of the method, and the gateway's own answer to the client is a 500.
\<close>

theorem store_failure_mapping_counterexample:
  "reply (handle getAllTodos \<lparr> todoId = [], body = None \<rparr> (Some ''500'') []) = Unmapped ''500''
   \<and> http_status (reply (handle getAllTodos \<lparr> todoId = [], body = None \<rparr> (Some ''500'') [])) = ''500''
   \<and> reply (handle createTodo \<lparr> todoId = [], body = Some (todo_body ''1'' ''A'' ''B'') \<rparr>
        (Some ''500'') []) = Unmapped ''500''"
  by (simp add: handle_fault accepts_unvalidated accepts_todo_body map_response_unmapped
      pattern_2xx_def pattern_4xx_def)


lemma createTodo_injected_attribute:
  \<open>decode_PutItem (createTodo_requestTemplate
      \<lparr> todoId = [], body = Some (todo_body ''1'' ''x"}, "done": {"S": "yes'' ''B'') \<rparr>) =
    Some ([(''id'', ''1''), (''title'', ''x''), (''done'', ''yes''), (''description'', ''B'')],
          Some attribute_not_exists)\<close>
  by (simp add: decode_PutItem_def parse_json_def createTodo_requestTemplate_def
      input_path_todo_body tableName_def is_ws_def names_table_def read_member_def decode_attr_def decode_condition_def)


section \<open>Values printed without escaping\<close>


lemma input_path_member:
  "str_member j k = Some v \<Longrightarrow> input_path \<lparr> todoId = p, body = Some j \<rparr> k = v"
  by (simp add: input_path_def)

lemma accepts_members:
  assumes "str_member j ''id'' = Some i" and "str_member j ''title'' = Some t"
    and "str_member j ''description'' = Some d"
  shows "accepts createTodo \<lparr> todoId = p, body = Some j \<rparr>"
    and "accepts updateSingleTodo \<lparr> todoId = p, body = Some j \<rparr>"
  using assms by (auto simp add: accepts_def method_fields valid_body_def validates_todoModel)

section \<open>Members of the body that the model does not name\<close>

text \<open>
  Claim C10, as amended. Take a body, with any members beside them, whose \<open>id\<close>,
  \<open>title\<close> and \<open>description\<close> are plain strings (and, for the update, a plain
  path id). The create and the update accept it; the put they send to the store is the
  put of the item of exactly these three attributes (with the path id as the \<open>id\<close>
  of the update); the outcome is the outcome for the body of the three members alone;
  so the table afterwards is the table before, or the table with that item put.
\<close>

theorem extra_members_discarded:
  fixes j :: json and i t d p :: string and tbl :: table and fault :: "string option"
  assumes "str_member j ''id'' = Some i" and "str_member j ''title'' = Some t"
    and "str_member j ''description'' = Some d"
    and "plain i" and "plain t" and "plain d" and "plain p"
  shows "accepts createTodo \<lparr> todoId = p, body = Some j \<rparr>
       \<and> accepts updateSingleTodo \<lparr> todoId = p, body = Some j \<rparr>
       \<and> decode_PutItem (createTodo_requestTemplate \<lparr> todoId = p, body = Some j \<rparr>) =
           Some (todo_item i t d, Some attribute_not_exists)
       \<and> decode_PutItem (updateSingleTodo_requestTemplate \<lparr> todoId = p, body = Some j \<rparr>) =
           Some (todo_item p t d, Some attribute_exists)
       \<and> handle createTodo \<lparr> todoId = p, body = Some j \<rparr> fault tbl =
           handle createTodo \<lparr> todoId = p, body = Some (todo_body i t d) \<rparr> fault tbl
       \<and> handle updateSingleTodo \<lparr> todoId = p, body = Some j \<rparr> fault tbl =
           handle updateSingleTodo \<lparr> todoId = p, body = Some (todo_body i t d) \<rparr> fault tbl
       \<and> (stored (handle createTodo \<lparr> todoId = p, body = Some j \<rparr> None tbl) = tbl
          \<or> stored (handle createTodo \<lparr> todoId = p, body = Some j \<rparr> None tbl) =
              AList.update i (todo_item i t d) tbl)
       \<and> (stored (handle updateSingleTodo \<lparr> todoId = p, body = Some j \<rparr> None tbl) = tbl
          \<or> stored (handle updateSingleTodo \<lparr> todoId = p, body = Some j \<rparr> None tbl) =
              AList.update p (todo_item p t d) tbl)"
proof -
  let ?req = "\<lparr> todoId = p, body = Some j \<rparr>"
  let ?bare = "\<lparr> todoId = p, body = Some (todo_body i t d) \<rparr>"
  have ip: "input_path ?req ''id'' = i" "input_path ?req ''title'' = t"
    "input_path ?req ''description'' = d"
    using assms(1-3) by (simp_all add: input_path_member)
  have ac: "accepts createTodo ?req" and au: "accepts updateSingleTodo ?req"
    using assms(1-3) by (rule accepts_members)+
  have dc: "decode_PutItem (createTodo_requestTemplate ?req) =
      Some (todo_item i t d, Some attribute_not_exists)"
    using decode_createTodo [of ?req] assms(4-6) by (simp add: ip)
  have du: "decode_PutItem (updateSingleTodo_requestTemplate ?req) =
      Some (todo_item p t d, Some attribute_exists)"
    using decode_updateSingleTodo [of ?req] assms(5-7) by (simp add: ip input_params_def)
  have tc: "createTodo_requestTemplate ?req = createTodo_requestTemplate ?bare"
    by (simp add: createTodo_requestTemplate_def ip input_path_todo_body)
  have tu: "updateSingleTodo_requestTemplate ?req = updateSingleTodo_requestTemplate ?bare"
    by (simp add: updateSingleTodo_requestTemplate_def ip input_path_todo_body input_params_def)
  have hc: "handle createTodo ?req fault tbl = handle createTodo ?bare fault tbl"
    using ac by (simp add: handle_def accepts_todo_body method_fields tc)
  have hu: "handle updateSingleTodo ?req fault tbl = handle updateSingleTodo ?bare fault tbl"
    using au by (simp add: handle_def accepts_todo_body method_fields tu)
  have sc: "stored (handle createTodo ?req None tbl) = tbl
      \<or> stored (handle createTodo ?req None tbl) = AList.update i (todo_item i t d) tbl"
    using handle_createTodo [OF ac, of tbl] assms(4-6) by (simp add: ip)
  have su: "stored (handle updateSingleTodo ?req None tbl) = tbl
      \<or> stored (handle updateSingleTodo ?req None tbl) = AList.update p (todo_item p t d) tbl"
    using handle_updateSingleTodo [OF au, of tbl] assms(5-7) by (simp add: ip input_params_def)
  from ac au dc du hc hu sc su show ?thesis
    by (intro conjI)
qed

theorem extra_members_discarded_witness:
  "plain ''1'' \<and> plain ''A'' \<and> plain ''B''
   \<and> accepts createTodo \<lparr> todoId = ''1'', body = Some (JObj [(''id'', JStr ''1''),
         (''done'', JBool True), (''title'', JStr ''A''), (''description'', JStr ''B''),
         (''owner'', JStr ''me'')]) \<rparr>
   \<and> decode_PutItem (createTodo_requestTemplate \<lparr> todoId = ''1'', body = Some (JObj [(''id'', JStr ''1''),
         (''done'', JBool True), (''title'', JStr ''A''), (''description'', JStr ''B''),
         (''owner'', JStr ''me'')]) \<rparr>) =
       Some ([(''id'', ''1''), (''title'', ''A''), (''description'', ''B'')], Some attribute_not_exists)
   \<and> handle updateSingleTodo \<lparr> todoId = ''1'', body = Some (JObj [(''id'', JStr ''1''),
         (''done'', JBool True), (''title'', JStr ''A''), (''description'', JStr ''B''),
         (''owner'', JStr ''me'')]) \<rparr> None [] =
       handle updateSingleTodo \<lparr> todoId = ''1'', body = Some (todo_body ''1'' ''A'' ''B'') \<rparr> None []"
proof -
  let ?j = "JObj [(''id'', JStr ''1''), (''done'', JBool True), (''title'', JStr ''A''),
    (''description'', JStr ''B''), (''owner'', JStr ''me'')]"
  have m: "str_member ?j ''id'' = Some ''1''" "str_member ?j ''title'' = Some ''A''"
    "str_member ?j ''description'' = Some ''B''"
    by simp_all
  have p: "plain ''1''" "plain ''A''" "plain ''B''"
    by (simp_all add: plain_def)
  note w = extra_members_discarded [OF m p p(1), where fault = None and tbl = "[]"]
  have a: "accepts createTodo \<lparr> todoId = ''1'', body = Some ?j \<rparr>"
    using w by (rule conjunct1)
  have b: "decode_PutItem (createTodo_requestTemplate \<lparr> todoId = ''1'', body = Some ?j \<rparr>) =
      Some ([(''id'', ''1''), (''title'', ''A''), (''description'', ''B'')], Some attribute_not_exists)"
    using w [THEN conjunct2, THEN conjunct2, THEN conjunct1] by (simp add: todo_item_def)
  have c: "handle updateSingleTodo \<lparr> todoId = ''1'', body = Some ?j \<rparr> None [] =
      handle updateSingleTodo \<lparr> todoId = ''1'', body = Some (todo_body ''1'' ''A'' ''B'') \<rparr> None []"
    using w [THEN conjunct2, THEN conjunct2, THEN conjunct2, THEN conjunct2, THEN conjunct2,
        THEN conjunct1] .
  from p a b c show ?thesis
    by (intro conjI)
qed

text \<open>
  The claim as first stated ranges over every body with the required string members.
  A title that closes its string and opens an attribute passes validation, and the item
  the create stores has a fourth attribute, which came from the body.
\<close>

theorem extra_members_discarded_counterexample:
  \<open>accepts createTodo \<lparr> todoId = [], body = Some (todo_body ''1'' ''x"}, "done": {"S": "yes'' ''B'') \<rparr>
   \<and> reply (handle createTodo
        \<lparr> todoId = [], body = Some (todo_body ''1'' ''x"}, "done": {"S": "yes'' ''B'') \<rparr> None []) =
       Responded ''200'' created_message
   \<and> stored (handle createTodo
        \<lparr> todoId = [], body = Some (todo_body ''1'' ''x"}, "done": {"S": "yes'' ''B'') \<rparr> None []) =
       [(''1'', [(''id'', ''1''), (''title'', ''x''), (''done'', ''yes''), (''description'', ''B'')])]\<close>
  by (simp add: accepts_todo_body handle_def method_fields store_call_def put_item_def
      createTodo_injected_attribute key_of_def condition_holds_def map_response_ok)

lemma vtl_ref_attr: "vtl_ref (item_json it) [k, ''S''] = attr it k"
  by (induction it) (auto simp add: item_json_def attr_json_def attr_def)

lemma skip_ws_idem: "skip_ws (skip_ws s) = skip_ws s"
  by (induction s) auto

lemma parse_value_skip_ws: "parse_value n (skip_ws s) = parse_value n s"
  by (cases n) (simp_all add: skip_ws_idem)

lemma parse_elements_skip_ws: "parse_elements n (skip_ws s) = parse_elements n s"
  by (cases n) (simp_all add: parse_value_skip_ws)

lemma parse_todo_entry:
  assumes "plain_item it"
  shows "parse_value (Suc (Suc (Suc (Suc (Suc n))))) (todo_entry (item_json it) @ r) =
    Some (todo_json it, r)"
  using assms
  unfolding todo_entry_def vtl_ref_attr
  by (simp add: plain_item_def is_ws_def parse_str_plain todo_json_def todo_body_def)


lemma parse_elements_ws: "is_ws c \<Longrightarrow> parse_elements n (c # s) = parse_elements n s"
  using parse_elements_skip_ws [of n "c # s"] parse_elements_skip_ws [of n s] by simp

lemma parse_elements_last:
  assumes "plain_item it"
  shows "parse_elements (Suc (Suc (Suc (Suc (Suc (Suc n))))))
      (todo_entry (item_json it) @ ''\<newline>'' @ ''                ]'' @ r) =
    Some ([todo_json it], r)"
  using assms by (simp add: parse_todo_entry is_ws_def del: parse_value.simps)

lemma parse_elements_next:
  assumes "plain_item it"
  shows "parse_elements (Suc (Suc (Suc (Suc (Suc (Suc n))))))
      (todo_entry (item_json it) @ '',\<newline>'' @ s) =
    map_option (\<lambda>(vs, r). (todo_json it # vs, r))
      (parse_elements (Suc (Suc (Suc (Suc (Suc n))))) s)"
  using assms
  by (subst parse_elements.simps(2))
    (simp add: parse_todo_entry parse_elements_ws is_ws_def
      del: parse_value.simps parse_elements.simps)

lemma parse_foreach_todo:
  assumes "list_all plain_item its" and "its \<noteq> []"
  shows "parse_elements (Suc (Suc (Suc (Suc (Suc (length its + n))))))
      (foreach_todo (map item_json its) @ ''                ]'' @ r) =
    Some (map todo_json its, r)"
  using assms
proof (induction its arbitrary: n)
  case Nil
  then show ?case by simp
next
  case (Cons it its)
  show ?case
  proof (cases its)
    case Nil
    then show ?thesis
      using Cons.prems parse_elements_last [of it n r] by simp
  next
    case (Cons a list)
    have ih: "parse_elements (Suc (Suc (Suc (Suc (Suc (length its + n))))))
        (foreach_todo (map item_json its) @ ''                ]'' @ r) =
      Some (map todo_json its, r)"
      using Cons.IH [of n] Cons.prems Cons by simp
    have "foreach_todo (map item_json (it # its)) @ ''                ]'' @ r =
        todo_entry (item_json it) @ '',\<newline>'' @
          (foreach_todo (map item_json its) @ ''                ]'' @ r)"
      using Cons by simp
    then show ?thesis
      using Cons.prems parse_elements_next [of it "length its + n"] ih
      by (simp del: parse_elements.simps parse_value.simps foreach_todo.simps)
  qed
qed


lemma parse_value_array:
  assumes "skip_ws s = c # r" and "c \<noteq> CHR '']''"
  shows "parse_value (Suc n) (CHR ''['' # s) =
    map_option (\<lambda>(vs, t). (JArr vs, t)) (parse_elements n s)"
  using assms parse_elements_skip_ws [of n s] by (simp add: is_ws_def)

lemma skip_ws_foreach_todo:
  "its \<noteq> [] \<Longrightarrow> \<exists>r. skip_ws (''\<newline>'' @ foreach_todo (map item_json its) @ t) = CHR ''{'' # r"
  by (cases its; cases "tl its") (auto simp add: todo_entry_def is_ws_def)

lemma length_foreach_todo: "length xs \<le> length (foreach_todo xs)"
  by (induction xs rule: foreach_todo.induct) (auto simp add: todo_entry_def)

lemma parse_scan_body:
  assumes "list_all plain_item its"
  shows "parse_json (snd (getAllTodos_responseTemplate (JObj [(''Items'', JArr (map item_json its))])))
    = Some (JArr (map todo_json its))"
proof (cases its)
  case Nil
  then show ?thesis
    by (simp add: getAllTodos_responseTemplate_def scan_items_def parse_json_def is_ws_def)
next
  case (Cons a list)
  define tail where "tail = foreach_todo (map item_json its) @ ''                ]''"
  define doc where "doc = ''\<newline>                ['' @ ''\<newline>'' @ tail"
  have body: "snd (getAllTodos_responseTemplate (JObj [(''Items'', JArr (map item_json its))])) = doc"
    by (simp add: getAllTodos_responseTemplate_def scan_items_def doc_def tail_def)
  have "length its + 7 \<le> length doc"
    using length_foreach_todo [of "map item_json its"] by (simp add: doc_def tail_def)
  then have "length doc = Suc (Suc (Suc (Suc (Suc (Suc (length its + (length doc - 6 - length its)))))))"
    by arith
  then obtain n where n: "length doc = Suc (Suc (Suc (Suc (Suc (Suc (length its + n))))))"
    by blast
  obtain r where r: "skip_ws (''\<newline>'' @ tail) = CHR ''{'' # r"
    using skip_ws_foreach_todo [of its "''                ]''"] Cons by (auto simp add: tail_def)
  have "parse_value (length doc) doc =
      parse_value (length doc) (CHR ''['' # (''\<newline>'' @ tail))"
    using parse_value_skip_ws [of "length doc" doc]
    by (simp add: doc_def is_ws_def del: parse_value.simps)
  also have "\<dots> = map_option (\<lambda>(vs, t). (JArr vs, t))
      (parse_elements (Suc (Suc (Suc (Suc (Suc (length its + n)))))) (''\<newline>'' @ tail))"
    unfolding n using r by (rule parse_value_array) simp
  also have "\<dots> = Some (JArr (map todo_json its), [])"
    using parse_foreach_todo [OF assms, of n "[]"] Cons
    by (simp add: tail_def parse_elements_ws is_ws_def del: parse_elements.simps)
  finally show ?thesis
    by (simp add: parse_json_def body)
qed


lemma getAllTodos_responseTemplate_items:
  "scan_items j = xs \<Longrightarrow>
   getAllTodos_responseTemplate j = getAllTodos_responseTemplate (JObj [(''Items'', JArr xs)])"
  by (simp add: getAllTodos_responseTemplate_def scan_items_def)

lemma handle_getAllTodos:
  "handle getAllTodos req None tbl =
     \<lparr> reply = Responded ''200''
         (snd (getAllTodos_responseTemplate
            (JObj [(''Items'', JArr (map item_json (take 10 (map snd tbl))))]))),
       calls = [(Scan, getAllTodos_requestTemplate req)],
       stored = tbl \<rparr>"
proof -
  define answer where "answer =
    JObj ([(''Count'', JNum (int (length (take 10 tbl)))),
           (''Items'', JArr (map (item_json \<circ> snd) (take 10 tbl)))] @
          (if length (take 10 tbl) < length tbl
           then [(''LastEvaluatedKey'', item_json [(''id'', fst (last (take 10 tbl)))])]
           else []))"
  have s: "scan (getAllTodos_requestTemplate req) tbl = ((''200'', answer), tbl)"
    by (simp add: scan_def decode_getAllTodos Let_def answer_def)
  have "scan_items answer = map item_json (take 10 (map snd tbl))"
    by (simp add: scan_items_def take_map answer_def)
  then have t: "getAllTodos_responseTemplate answer =
      getAllTodos_responseTemplate (JObj [(''Items'', JArr (map item_json (take 10 (map snd tbl))))])"
    by (rule getAllTodos_responseTemplate_items)
  show ?thesis
    by (simp add: handle_def accepts_unvalidated method_fields store_call_def Let_def
        map_response_ok s t)
qed

section \<open>The page of a scan\<close>

text \<open>
  Claim C9, as amended. For every table, GET \<open>/v1/todo\<close> makes one scan, whose
  payload sets the limit 10, changes nothing, and is answered with 200 and the rendering
  of the first items of the table, at most 10 of them. When the attributes of these
  items are plain (no double quote, no backslash, no control character) the body is a
  JSON array of their objects, of at most 10 elements, and nothing else (no continuation
  token). After 15 creates of plain todos the array has 10 elements.
\<close>

theorem scan_bound:
  fixes req :: request and tbl :: table
  shows "calls (handle getAllTodos req None tbl) = [(Scan, getAllTodos_requestTemplate req)]
       \<and> decode_Scan (getAllTodos_requestTemplate req) = Some (Some 10)
       \<and> stored (handle getAllTodos req None tbl) = tbl
       \<and> (\<exists>page. page = take 10 (map snd tbl) \<and> length page \<le> 10
             \<and> reply (handle getAllTodos req None tbl) =
                 Responded ''200''
                   (snd (getAllTodos_responseTemplate (JObj [(''Items'', JArr (map item_json page))]))))
       \<and> (list_all plain_item (take 10 (map snd tbl)) \<longrightarrow>
            (\<exists>xs. response_json (reply (handle getAllTodos req None tbl)) = Some (JArr xs)
               \<and> xs = map todo_json (take 10 (map snd tbl))
               \<and> length xs = min 10 (length tbl) \<and> length xs \<le> 10))"
  by (simp add: handle_getAllTodos decode_getAllTodos parse_scan_body min.commute)


theorem scan_bound_witness:
  "length (create_all fifteen_todos []) = 15
   \<and> list_all plain_item (take 10 (map snd (create_all fifteen_todos [])))
   \<and> (\<exists>xs. response_json (reply (handle getAllTodos \<lparr> todoId = [], body = None \<rparr> None
              (create_all fifteen_todos []))) = Some (JArr xs)
          \<and> length xs = 10)"
proof -
  have t: "create_all fifteen_todos [] = map (\<lambda>(i, t, d). (i, todo_item i t d)) fifteen_todos"
    by (simp add: fifteen_todos_def handle_createTodo accepts_todo_body input_path_todo_body
        plain_def)
  have n: "length (create_all fifteen_todos []) = 15"
    by (simp add: t) (simp add: fifteen_todos_def)
  have p: "list_all plain_item (take 10 (map snd (create_all fifteen_todos [])))"
    by (simp add: t) (simp add: fifteen_todos_def plain_item_def attr_def todo_item_def plain_def)
  have "\<exists>xs. response_json (reply (handle getAllTodos \<lparr> todoId = [], body = None \<rparr> None
        (create_all fifteen_todos []))) = Some (JArr xs)
      \<and> xs = map todo_json (take 10 (map snd (create_all fifteen_todos [])))
      \<and> length xs = min 10 (length (create_all fifteen_todos [])) \<and> length xs \<le> 10"
    using scan_bound [where req = "\<lparr> todoId = [], body = None \<rparr>"
        and tbl = "create_all fifteen_todos []"] p
    by blast
  then have "\<exists>xs. response_json (reply (handle getAllTodos \<lparr> todoId = [], body = None \<rparr> None
        (create_all fifteen_todos []))) = Some (JArr xs) \<and> length xs = 10"
    unfolding n by auto
  with n p show ?thesis
    by (intro conjI)
qed

text \<open>
  The claim as first stated bounds the array for every state of the store. Six creates
  whose titles hold escaped quotes are all answered with 200; each stored title closes
  its string and its object when the response template prints it, and the GET is
  answered with 200 and a JSON array of 12 elements.
\<close>

theorem scan_bound_counterexample:
  "length (create_all six_split_todos []) = 6
   \<and> http_status (reply (handle getAllTodos \<lparr> todoId = [], body = None \<rparr> None
        (create_all six_split_todos []))) = ''200''
   \<and> Option.bind (response_json (reply (handle getAllTodos \<lparr> todoId = [], body = None \<rparr> None
        (create_all six_split_todos [])))) array_size = Some 12"
  by code_simp

end
